theory Spec2Isabelle
  imports Main "HOL-Library.Sublist"
begin

section \<open>Python values, library calls and the state the notebook runs in\<close>

text \<open>
  The notebook \<^verbatim>\<open>examples/keras_convnet_example.ipynb\<close> is a top-to-bottom script. Every
  statement of it is a call into a library (janggu, keras, numpy, sklearn, pkg_resources,
  the builtins) or an access to \<^verbatim>\<open>os.environ\<close>. The libraries are not part of the
  notebook: they are a parameter of the model, a function that answers each call with a
  value or an exception and may change the process environment and everything else
  outside the script.
\<close>

datatype pyval =
    PyNone
  | PyBool bool
  | PyInt int
  | PyStr string
  | PyTuple "pyval list"
  | PyList "pyval list"
  | PySlice pyval pyval pyval
  | PyObj nat

datatype pyexn = PyExn string pyval

datatype callee =
    Import string "string list"
  | Fn string
  | Meth pyval string
  | Attr pyval string

datatype call = Call callee "pyval list" "(string \<times> pyval) list"

type_synonym outcome = "pyexn + pyval"

datatype event =
    Ev call outcome
  | EnvSet string string
  | EnvGet string outcome

record 'w state =
  environ :: "string \<rightharpoonup> string"
  extern :: 'w
  trace :: "event list"

type_synonym 'w lib =
  "call \<Rightarrow> (string \<rightharpoonup> string) \<times> 'w \<Rightarrow> outcome \<times> (string \<rightharpoonup> string) \<times> 'w"

type_synonym ('w, 'a) py = "'w state \<Rightarrow> (pyexn + 'a) \<times> 'w state"

definition ret :: "'a \<Rightarrow> ('w, 'a) py" where
  "ret x s = (Inr x, s)"

text \<open>Sequencing: an exception of the first part ends the run, nothing catches it.\<close>

definition seq :: "('w, 'a) py \<Rightarrow> ('a \<Rightarrow> ('w, 'b) py) \<Rightarrow> ('w, 'b) py" where
  "seq m f s = (case m s of (Inl e, s') \<Rightarrow> (Inl e, s') | (Inr x, s') \<Rightarrow> f x s')"

fun do_all :: "('w, 'a) py list \<Rightarrow> ('w, unit) py" where
  "do_all [] = ret ()"
| "do_all (m # ms) = seq m (\<lambda>_. do_all ms)"

definition perform :: "'w lib \<Rightarrow> call \<Rightarrow> ('w, pyval) py" where
  "perform lib c s =
     (case lib c (environ s, extern s) of
        (r, env', w') \<Rightarrow> (r, \<lparr>environ = env', extern = w', trace = trace s @ [Ev c r]\<rparr>))"

definition py_import :: "'w lib \<Rightarrow> string \<Rightarrow> string list \<Rightarrow> ('w, pyval) py" where
  "py_import lib m names = perform lib (Call (Import m names) [] [])"

definition func :: "'w lib \<Rightarrow> string \<Rightarrow> pyval list \<Rightarrow> (string \<times> pyval) list \<Rightarrow> ('w, pyval) py" where
  "func lib f args kwargs = perform lib (Call (Fn f) args kwargs)"

text \<open>
  A method call \<^verbatim>\<open>obj.m(args)\<close> is one operation: the lookup of the method and the
  call. Python looks the method up before it evaluates the arguments; here the arguments
  are evaluated first and the lookup is part of the call.
\<close>

definition invoke ::
  "'w lib \<Rightarrow> pyval \<Rightarrow> string \<Rightarrow> pyval list \<Rightarrow> (string \<times> pyval) list \<Rightarrow> ('w, pyval) py" where
  "invoke lib obj m args kwargs = perform lib (Call (Meth obj m) args kwargs)"

definition getattr :: "'w lib \<Rightarrow> pyval \<Rightarrow> string \<Rightarrow> ('w, pyval) py" where
  "getattr lib obj a = perform lib (Call (Attr obj a) [] [])"

text \<open>\<^verbatim>\<open>os.environ[k] = v\<close> and \<^verbatim>\<open>os.environ[k]\<close>; the read raises KeyError on a missing key.\<close>

definition environ_setitem :: "string \<Rightarrow> string \<Rightarrow> ('w, unit) py" where
  "environ_setitem k v s =
     (Inr (), s\<lparr>environ := (environ s)(k \<mapsto> v), trace := trace s @ [EnvSet k v]\<rparr>)"

definition environ_getitem :: "string \<Rightarrow> ('w, pyval) py" where
  "environ_getitem k s =
     (let r = (case environ s k of
                 None \<Rightarrow> Inl (PyExn ''KeyError'' (PyStr k))
               | Some v \<Rightarrow> Inr (PyStr v))
      in (r, s\<lparr>trace := trace s @ [EnvGet k r]\<rparr>))"

section \<open>The notebook\<close>

text \<open>Cell 4: \<^verbatim>\<open>order = 3\<close>.\<close>

definition order :: int where
  "order = 3"

text \<open>\<^verbatim>\<open>pow(4, order)\<close> on integers, for an exponent that is not negative.\<close>

definition pow :: "int \<Rightarrow> int \<Rightarrow> int" where
  "pow b e = b ^ nat e"

text \<open>The global variables the notebook has bound when it ends (\<open>DNA_of g\<close> is the
  value of \<^verbatim>\<open>DNA\<close>).\<close>

record namespace =
  REFGENOME_of :: pyval
  ROI_TRAIN_FILE_of :: pyval
  ROI_TEST_FILE_of :: pyval
  PEAK_FILE_of :: pyval
  DNA_of :: pyval
  LABELS_of :: pyval
  DNA_TEST_of :: pyval
  LABELS_TEST_of :: pyval
  xin_of :: pyval
  layer_of :: pyval
  output_of :: pyval
  model_of :: pyval
  hist_of :: pyval
  pred_of :: pyval
  cov_pred_of :: pyval

text \<open>\<^verbatim>\<open>hist.history[key][-1]\<close> (lines 467 and 468).\<close>

definition last_of_history :: "'w lib \<Rightarrow> pyval \<Rightarrow> string \<Rightarrow> ('w, pyval) py" where
  "last_of_history lib h key =
     seq (getattr lib h ''history'') (\<lambda>d.
     seq (invoke lib d ''__getitem__'' [PyStr key] []) (\<lambda>xs.
     invoke lib xs ''__getitem__'' [PyInt (- 1)] []))"

text \<open>
  \<^verbatim>\<open>cov_pred.export_to_bigwig(output_dir=os.environ['JANGGU_OUTPUT'])\<close> (line 491): the
  argument is evaluated first, so the variable is read from the environment as it is
  when the line is reached.
\<close>

definition export_to_bigwig :: "'w lib \<Rightarrow> pyval \<Rightarrow> ('w, pyval) py" where
  "export_to_bigwig lib cov_pred =
     seq (environ_getitem ''JANGGU_OUTPUT'') (\<lambda>dir.
     invoke lib cov_pred ''export_to_bigwig'' [] [(''output_dir'', dir)])"

text \<open>
  The code cells, in the order of the file. A cell takes the global variables it reads
  and returns the ones it binds.
\<close>

text \<open>Cell 1 (lines 35 to 53).\<close>

definition cell1 :: "'w lib \<Rightarrow> ('w, unit) py" where
  "cell1 lib = do_all
     [py_import lib ''os'' [],
      py_import lib ''numpy'' [],
      py_import lib ''keras'' [''Model''],
      py_import lib ''keras'' [''backend''],
      py_import lib ''keras.layers'' [''Conv2D''],
      py_import lib ''keras.layers'' [''Dense''],
      py_import lib ''keras.layers'' [''GlobalAveragePooling2D''],
      py_import lib ''keras.layers'' [''Input''],
      py_import lib ''pkg_resources'' [''resource_filename''],
      py_import lib ''janggu.data'' [''Bioseq''],
      py_import lib ''janggu.data'' [''Cover''],
      py_import lib ''janggu.data'' [''ReduceDim''],
      py_import lib ''janggu.layers'' [''DnaConv2D''],
      py_import lib ''sklearn.metrics'' [''roc_auc_score'']]"

text \<open>Cell 2 (lines 62 to 64).\<close>

definition cell2 :: "'w lib \<Rightarrow> ('w, pyval) py" where
  "cell2 lib =
     seq (py_import lib ''IPython.display'' [''Image'']) (\<lambda>_.
     func lib ''np.random.seed'' [PyInt 1234] [])"

text \<open>Cell 3 (line 80).\<close>

definition cell3 :: "('w, unit) py" where
  "cell3 = environ_setitem ''JANGGU_OUTPUT'' ''/home/wkopp/janggu_examples''"

text \<open>Cell 5 (lines 109 to 114).\<close>

definition cell5 :: "'w lib \<Rightarrow> ('w, pyval \<times> pyval \<times> pyval \<times> pyval) py" where
  "cell5 lib =
     seq (func lib ''resource_filename''
            [PyStr ''janggu'', PyStr ''resources/pseudo_genome.fa''] []) (\<lambda>REFGENOME.
     seq (func lib ''resource_filename''
            [PyStr ''janggu'', PyStr ''resources/roi_train.bed''] []) (\<lambda>ROI_TRAIN_FILE.
     seq (func lib ''resource_filename''
            [PyStr ''janggu'', PyStr ''resources/roi_test.bed''] []) (\<lambda>ROI_TEST_FILE.
     seq (func lib ''resource_filename''
            [PyStr ''janggu'', PyStr ''resources/scores.bed''] []) (\<lambda>PEAK_FILE.
     ret (REFGENOME, ROI_TRAIN_FILE, ROI_TEST_FILE, PEAK_FILE)))))"

text \<open>Cell 6 (lines 144 to 169).\<close>

definition cell6 ::
  "'w lib \<Rightarrow> pyval \<Rightarrow> pyval \<Rightarrow> pyval \<Rightarrow> pyval \<Rightarrow> ('w, pyval \<times> pyval \<times> pyval \<times> pyval) py" where
  "cell6 lib REFGENOME ROI_TRAIN_FILE ROI_TEST_FILE PEAK_FILE =
     seq (func lib ''Bioseq.create_from_refgenome'' [PyStr ''dna'']
            [(''refgenome'', REFGENOME), (''roi'', ROI_TRAIN_FILE),
             (''binsize'', PyInt 200), (''order'', PyInt order),
             (''cache'', PyBool True)]) (\<lambda>DNA.
     seq (seq (func lib ''Cover.create_from_bed'' [PyStr ''peaks'']
                 [(''roi'', ROI_TRAIN_FILE), (''bedfiles'', PEAK_FILE),
                  (''binsize'', PyInt 200), (''resolution'', PyInt 200),
                  (''cache'', PyBool True), (''storage'', PyStr ''sparse'')])
            (\<lambda>cover. func lib ''ReduceDim'' [cover] [])) (\<lambda>LABELS.
     seq (func lib ''Bioseq.create_from_refgenome'' [PyStr ''dna'']
            [(''refgenome'', REFGENOME), (''roi'', ROI_TEST_FILE),
             (''binsize'', PyInt 200), (''order'', PyInt order)]) (\<lambda>DNA_TEST.
     seq (seq (func lib ''Cover.create_from_bed'' [PyStr ''peaks'']
                 [(''bedfiles'', PEAK_FILE), (''roi'', ROI_TEST_FILE),
                  (''binsize'', PyInt 200), (''resolution'', PyInt 200),
                  (''storage'', PyStr ''sparse'')])
            (\<lambda>cover. func lib ''ReduceDim'' [cover] [])) (\<lambda>LABELS_TEST.
     ret (DNA, LABELS, DNA_TEST, LABELS_TEST)))))"

text \<open>Cell 7 (lines 187 and 188).\<close>

definition cell7 :: "'w lib \<Rightarrow> pyval \<Rightarrow> pyval \<Rightarrow> pyval \<Rightarrow> pyval \<Rightarrow> ('w, pyval) py" where
  "cell7 lib DNA LABELS DNA_TEST LABELS_TEST =
     seq (seq (getattr lib DNA ''shape'') (\<lambda>a.
          seq (getattr lib LABELS ''shape'') (\<lambda>b.
          func lib ''print'' [PyStr ''training set:'', a, b] []))) (\<lambda>_.
     seq (getattr lib DNA_TEST ''shape'') (\<lambda>a.
     seq (getattr lib LABELS_TEST ''shape'') (\<lambda>b.
     func lib ''print'' [PyStr ''test set:'', a, b] [])))"

text \<open>Cell 8 (lines 226 to 238).\<close>

definition cell8 :: "'w lib \<Rightarrow> ('w, pyval \<times> pyval \<times> pyval \<times> pyval) py" where
  "cell8 lib =
     seq (func lib ''Input''
            [PyTuple [PyInt (200 - order + 1), PyInt 1, PyInt (pow 4 order)]] []) (\<lambda>xin.
     seq (seq (func lib ''Conv2D'' [PyInt 30, PyTuple [PyInt 21, PyInt 1]]
                 [(''activation'', PyStr ''relu'')]) (\<lambda>conv.
          seq (func lib ''DnaConv2D'' [conv] []) (\<lambda>wrapped.
          invoke lib wrapped ''__call__'' [xin] []))) (\<lambda>layer.
     seq (seq (func lib ''GlobalAveragePooling2D'' [] []) (\<lambda>pool.
          invoke lib pool ''__call__'' [layer] [])) (\<lambda>layer.
     seq (seq (func lib ''Dense'' [PyInt 1] [(''activation'', PyStr ''sigmoid'')]) (\<lambda>dense.
          invoke lib dense ''__call__'' [layer] [])) (\<lambda>output.
     seq (func lib ''Model'' [xin, output] []) (\<lambda>model.
     seq (invoke lib model ''compile'' []
            [(''optimizer'', PyStr ''adadelta''), (''loss'', PyStr ''binary_crossentropy''),
             (''metrics'', PyList [PyStr ''acc''])]) (\<lambda>_.
     seq (invoke lib model ''summary'' [] []) (\<lambda>_.
     ret (xin, layer, output, model))))))))"

text \<open>Cell 9 (lines 464 to 469).\<close>

definition cell9 :: "'w lib \<Rightarrow> pyval \<Rightarrow> pyval \<Rightarrow> pyval \<Rightarrow> ('w, pyval) py" where
  "cell9 lib model DNA LABELS =
     seq (invoke lib model ''fit'' [DNA, LABELS] [(''epochs'', PyInt 100)]) (\<lambda>hist.
     seq (func lib ''print'' [PyStr (replicate 40 CHR ''#'')] []) (\<lambda>_.
     seq (seq (last_of_history lib hist ''loss'') (\<lambda>a.
          seq (last_of_history lib hist ''acc'') (\<lambda>b.
          seq (invoke lib (PyStr ''loss: {}, acc: {}'') ''format'' [a, b] []) (\<lambda>line.
          func lib ''print'' [line] [])))) (\<lambda>_.
     seq (func lib ''print'' [PyStr (replicate 40 CHR ''#'')] []) (\<lambda>_.
     ret hist))))"

text \<open>Cell 10 (lines 487 to 491).\<close>

definition cell10 :: "'w lib \<Rightarrow> pyval \<Rightarrow> pyval \<Rightarrow> pyval \<Rightarrow> ('w, pyval \<times> pyval) py" where
  "cell10 lib model DNA_TEST LABELS_TEST =
     seq (invoke lib model ''predict'' [DNA_TEST] []) (\<lambda>pred.
     seq (seq (getattr lib LABELS_TEST ''gindexer'') (\<lambda>gindexer.
          func lib ''Cover.create_from_array''
            [PyStr ''BindingProba'', pred, gindexer] [])) (\<lambda>cov_pred.
     seq (export_to_bigwig lib cov_pred) (\<lambda>_.
     ret (pred, cov_pred))))"

text \<open>Cell 11 (line 508).\<close>

definition cell11 :: "'w lib \<Rightarrow> pyval \<Rightarrow> pyval \<Rightarrow> ('w, pyval) py" where
  "cell11 lib LABELS_TEST pred =
     seq (invoke lib LABELS_TEST ''__getitem__'' [PySlice PyNone PyNone PyNone] [])
       (\<lambda>labels.
     seq (func lib ''roc_auc_score'' [labels, pred] []) (\<lambda>auc.
     func lib ''print'' [PyStr ''AUC:'', auc] []))"

text \<open>The notebook: its cells run top to bottom (cell 4 is the constant \<open>order\<close>).\<close>

definition notebook :: "'w lib \<Rightarrow> ('w, namespace) py" where
  "notebook lib =
     seq (cell1 lib) (\<lambda>_.
     seq (cell2 lib) (\<lambda>_.
     seq cell3 (\<lambda>_.
     seq (cell5 lib) (\<lambda>(REFGENOME, ROI_TRAIN_FILE, ROI_TEST_FILE, PEAK_FILE).
     seq (cell6 lib REFGENOME ROI_TRAIN_FILE ROI_TEST_FILE PEAK_FILE)
       (\<lambda>(DNA, LABELS, DNA_TEST, LABELS_TEST).
     seq (cell7 lib DNA LABELS DNA_TEST LABELS_TEST) (\<lambda>_.
     seq (cell8 lib) (\<lambda>(xin, layer, output, model).
     seq (cell9 lib model DNA LABELS) (\<lambda>hist.
     seq (cell10 lib model DNA_TEST LABELS_TEST) (\<lambda>(pred, cov_pred).
     seq (cell11 lib LABELS_TEST pred) (\<lambda>_.
     ret \<lparr>REFGENOME_of = REFGENOME, ROI_TRAIN_FILE_of = ROI_TRAIN_FILE,
          ROI_TEST_FILE_of = ROI_TEST_FILE, PEAK_FILE_of = PEAK_FILE,
          DNA_of = DNA, LABELS_of = LABELS, DNA_TEST_of = DNA_TEST,
          LABELS_TEST_of = LABELS_TEST, xin_of = xin, layer_of = layer,
          output_of = output, model_of = model, hist_of = hist, pred_of = pred,
          cov_pred_of = cov_pred\<rparr>))))))))))"

text \<open>A run of the notebook in a fresh kernel: nothing has been called yet.\<close>

definition run :: "'w lib \<Rightarrow> (string \<rightharpoonup> string) \<Rightarrow> 'w \<Rightarrow> (pyexn + namespace) \<times> 'w state" where
  "run lib env w = notebook lib \<lparr>environ = env, extern = w, trace = []\<rparr>"

definition result_of :: "'w lib \<Rightarrow> (string \<rightharpoonup> string) \<Rightarrow> 'w \<Rightarrow> pyexn + namespace" where
  "result_of lib env w = fst (run lib env w)"

definition trace_of :: "'w lib \<Rightarrow> (string \<rightharpoonup> string) \<Rightarrow> 'w \<Rightarrow> event list" where
  "trace_of lib env w = trace (snd (run lib env w))"

section \<open>Reading a trace\<close>

fun outcome_of :: "event \<Rightarrow> outcome" where
  "outcome_of (Ev c r) = r"
| "outcome_of (EnvSet k v) = Inr PyNone"
| "outcome_of (EnvGet k r) = r"

fun succeeded :: "event \<Rightarrow> bool" where
  "succeeded ev = (case outcome_of ev of Inl e \<Rightarrow> False | Inr v \<Rightarrow> True)"

text \<open>The name of the operation an event is, without its operands.\<close>

fun callee_label :: "callee \<Rightarrow> string" where
  "callee_label (Import m names) = ''import '' @ m"
| "callee_label (Fn f) = f"
| "callee_label (Meth obj m) = ''.'' @ m @ ''()''"
| "callee_label (Attr obj a) = ''.'' @ a"

fun label :: "event \<Rightarrow> string" where
  "label (Ev (Call f args kwargs) r) = callee_label f"
| "label (EnvSet k v) = ''os.environ.__setitem__''"
| "label (EnvGet k r) = ''os.environ.__getitem__''"

definition labelled :: "string list \<Rightarrow> event \<Rightarrow> bool" where
  "labelled ls ev = (label ev \<in> set ls)"

text \<open>No event of kind \<open>B\<close> happens before the first event of kind \<open>A\<close>.\<close>

fun precedes :: "('a \<Rightarrow> bool) \<Rightarrow> ('a \<Rightarrow> bool) \<Rightarrow> 'a list \<Rightarrow> bool" where
  "precedes A B [] = True"
| "precedes A B (x # xs) = (if A x then True else \<not> B x \<and> precedes A B xs)"

text \<open>The value an event gave back to the script.\<close>

fun returned :: "event \<Rightarrow> pyval" where
  "returned (Ev c (Inr v)) = v"
| "returned (EnvGet k (Inr v)) = v"
| "returned ev = PyNone"

text \<open>The calls of a trace that go to the operation \<open>l\<close>.\<close>

fun request :: "event \<Rightarrow> call list" where
  "request (Ev c r) = [c]"
| "request ev = []"

definition calls_labelled :: "string \<Rightarrow> event list \<Rightarrow> call list" where
  "calls_labelled l t = concat (map request (filter (labelled [l]) t))"

text \<open>
  Comparing two calls: keyword arguments have no order, so two calls are the same when
  they go to the same callee with the same positional arguments and the same set of
  keyword arguments. \<open>with_kwarg k v c\<close> is \<open>c\<close> with the value of its keyword \<open>k\<close>
  replaced by \<open>v\<close>, \<open>without_kwarg k c\<close> is \<open>c\<close> with the keyword left out.
\<close>

fun call_kwargs :: "call \<Rightarrow> (string \<times> pyval) list" where
  "call_kwargs (Call f args kwargs) = kwargs"

fun same_call :: "call \<Rightarrow> call \<Rightarrow> bool" where
  "same_call (Call f args kwargs) (Call f' args' kwargs') =
     (f = f' \<and> args = args' \<and>
      list_all (\<lambda>kv. kv \<in> set kwargs') kwargs \<and> list_all (\<lambda>kv. kv \<in> set kwargs) kwargs')"

fun with_kwarg :: "string \<Rightarrow> pyval \<Rightarrow> call \<Rightarrow> call" where
  "with_kwarg k v (Call f args kwargs) =
     Call f args (map (\<lambda>(k', v'). if k' = k then (k', v) else (k', v')) kwargs)"

fun without_kwarg :: "string \<Rightarrow> call \<Rightarrow> call" where
  "without_kwarg k (Call f args kwargs) = Call f args (filter (\<lambda>(k', v'). k' \<noteq> k) kwargs)"

section \<open>What a computation adds to the trace\<close>

text \<open>
  \<open>emits m ls\<close>: from any state, \<open>m\<close> appends events to the trace and changes nothing
  that is already there. When it returns, the events are the operations \<open>ls\<close>, in
  this order, and all of them succeeded; when it raises \<open>e\<close>, the events are an initial
  part of \<open>ls\<close>, the last one is the operation that raised \<open>e\<close>, and the ones
  before it succeeded.
\<close>

definition emits :: "('w, 'a) py \<Rightarrow> string list \<Rightarrow> bool" where
  "emits m ls \<longleftrightarrow> (\<forall>s. \<exists>evs. trace (snd (m s)) = trace s @ evs \<and>
     (case fst (m s) of
        Inr x \<Rightarrow> map label evs = ls \<and> list_all succeeded evs
      | Inl e \<Rightarrow> evs \<noteq> [] \<and> prefix (map label evs) ls \<and>
          list_all succeeded (butlast evs) \<and> outcome_of (last evs) = Inl e))"

text \<open>\<open>each I m\<close>: every event \<open>m\<close> adds to the trace satisfies \<open>I\<close>.\<close>

definition each :: "(event \<Rightarrow> bool) \<Rightarrow> ('w, 'a) py \<Rightarrow> bool" where
  "each I m \<longleftrightarrow> (\<forall>s. list_all I (trace s) \<longrightarrow> list_all I (trace (snd (m s))))"

section \<open>The order of the operations\<close>

text \<open>
  The operations of a run by name, grouped as the steps of the call sequence: the
  imports and the random seed, (1) the output directory, the paths of the packaged
  files, (2) the training data, (3) the test data, the report of the shapes, (4) the
  model, (5) the fit and its report, (6) the prediction and its export, (7) the score.
\<close>

definition prologue :: "string list" where
  "prologue =
     [''import os'', ''import numpy'', ''import keras'', ''import keras'',
      ''import keras.layers'', ''import keras.layers'', ''import keras.layers'',
      ''import keras.layers'', ''import pkg_resources'', ''import janggu.data'',
      ''import janggu.data'', ''import janggu.data'', ''import janggu.layers'',
      ''import sklearn.metrics'', ''import IPython.display'', ''np.random.seed'']"

definition step1 :: "string list" where
  "step1 = [''os.environ.__setitem__'']"

definition paths :: "string list" where
  "paths = [''resource_filename'', ''resource_filename'', ''resource_filename'',
     ''resource_filename'']"

definition step2 :: "string list" where
  "step2 = [''Bioseq.create_from_refgenome'', ''Cover.create_from_bed'', ''ReduceDim'']"

definition step3 :: "string list" where
  "step3 = [''Bioseq.create_from_refgenome'', ''Cover.create_from_bed'', ''ReduceDim'']"

definition shapes :: "string list" where
  "shapes = [''.shape'', ''.shape'', ''print'', ''.shape'', ''.shape'', ''print'']"

definition step4 :: "string list" where
  "step4 =
     [''Input'', ''Conv2D'', ''DnaConv2D'', ''.__call__()'', ''GlobalAveragePooling2D'',
      ''.__call__()'', ''Dense'', ''.__call__()'', ''Model'', ''.compile()'', ''.summary()'']"

definition step5 :: "string list" where
  "step5 =
     [''.fit()'', ''print'', ''.history'', ''.__getitem__()'', ''.__getitem__()'',
      ''.history'', ''.__getitem__()'', ''.__getitem__()'', ''.format()'', ''print'',
      ''print'']"

definition step6 :: "string list" where
  "step6 =
     [''.predict()'', ''.gindexer'', ''Cover.create_from_array'', ''os.environ.__getitem__'',
      ''.export_to_bigwig()'']"

definition step7 :: "string list" where
  "step7 = [''.__getitem__()'', ''roc_auc_score'', ''print'']"

definition script_labels :: "string list" where
  "script_labels =
     prologue @ step1 @ paths @ step2 @ step3 @ shapes @ step4 @ step5 @ step6 @ step7"

text \<open>The operations that load data, build, fit and use the model (steps 2 to 7).\<close>

definition library_work :: "string list" where
  "library_work = step2 @ step3 @ step4 @ step5 @ step6 @ step7"

text \<open>
  The operations of the notebook that construct, compute, read or write to the standard
  output: all of them but the assignment to \<^verbatim>\<open>os.environ\<close> and the export of the track
  file. What a library does on its own inside such a call (the cache files behind
  \<^verbatim>\<open>cache=True\<close>) is not an operation of the script.
\<close>

definition reads_and_computes :: "string list" where
  "reads_and_computes =
     prologue @ paths @ step2 @ step3 @ shapes @ step4 @ step5 @
     [''.predict()'', ''.gindexer'', ''Cover.create_from_array'', ''os.environ.__getitem__'']
     @ step7"

text \<open>The call \<^verbatim>\<open>np.random.seed(1234)\<close> and the assignment of cell 3.\<close>

fun seeds_1234 :: "event \<Rightarrow> bool" where
  "seeds_1234 (Ev (Call (Fn f) args kwargs) r) =
     (f = ''np.random.seed'' \<and> args = [PyInt 1234] \<and> kwargs = [])"
| "seeds_1234 ev = False"

definition sets_output_dir :: "event \<Rightarrow> bool" where
  "sets_output_dir ev = (ev = EnvSet ''JANGGU_OUTPUT'' ''/home/wkopp/janggu_examples'')"

text \<open>Every seeding of a run is \<open>seeds_1234\<close>, every assignment to the environment is
  \<open>sets_output_dir\<close>.\<close>

definition pinned :: "event \<Rightarrow> bool" where
  "pinned ev =
     ((labelled [''np.random.seed''] ev \<longrightarrow> seeds_1234 ev) \<and>
      (labelled [''os.environ.__setitem__''] ev \<longrightarrow> sets_output_dir ev))"

section \<open>The environment variable between its assignment and its read\<close>

text \<open>
  What the libraries may do to the variable \<^verbatim>\<open>JANGGU_OUTPUT\<close>. A library keeps it when no
  call changes its value (the rest of the environment may change); a library moves it to
  \<open>d\<close> when every call leaves it set to \<open>d\<close>. \<open>reads d\<close> holds of every event but a
  read of the environment that is not a read of \<^verbatim>\<open>JANGGU_OUTPUT\<close> returning \<open>d\<close>.
\<close>

definition keeps_output_dir :: "'w lib \<Rightarrow> bool" where
  "keeps_output_dir lib \<longleftrightarrow>
     (\<forall>c env w. fst (snd (lib c (env, w))) ''JANGGU_OUTPUT'' = env ''JANGGU_OUTPUT'')"

definition moves_output_dir :: "'w lib \<Rightarrow> string \<Rightarrow> bool" where
  "moves_output_dir lib d \<longleftrightarrow>
     (\<forall>c env w. fst (snd (lib c (env, w))) ''JANGGU_OUTPUT'' = Some d)"

fun reads :: "string \<Rightarrow> event \<Rightarrow> bool" where
  "reads d (EnvGet k r) = (k = ''JANGGU_OUTPUT'' \<and> r = Inr (PyStr d))"
| "reads d ev = True"

text \<open>
  \<open>has_dir d b s\<close>: every read so far was \<open>reads d\<close> and, when \<open>b\<close> holds, the variable
  has the value \<open>d\<close>. \<open>tracks d P m Q\<close>: from a state with \<open>P\<close>, \<open>m\<close> returns in a
  state with \<open>Q\<close>, or raises with every read so far \<open>reads d\<close>.
\<close>

definition has_dir :: "string \<Rightarrow> bool \<Rightarrow> 'w state \<Rightarrow> bool" where
  "has_dir d b s \<longleftrightarrow>
     list_all (reads d) (trace s) \<and> (b \<longrightarrow> environ s ''JANGGU_OUTPUT'' = Some d)"

definition tracks ::
  "string \<Rightarrow> ('w state \<Rightarrow> bool) \<Rightarrow> ('w, 'a) py \<Rightarrow> ('w state \<Rightarrow> bool) \<Rightarrow> bool" where
  "tracks d P m Q \<longleftrightarrow>
     (\<forall>s. P s \<longrightarrow>
        (case fst (m s) of
           Inr x \<Rightarrow> Q (snd (m s))
         | Inl e \<Rightarrow> list_all (reads d) (trace (snd (m s)))))"

section \<open>The shape a sequence dataset reports\<close>





section \<open>Libraries to run the notebook against\<close>

text \<open>
  The answer of the libraries below to a call, \<open>n\<close> calls having been made: a fresh
  opaque object, but to the read of an attribute \<^verbatim>\<open>shape\<close> the tuple
  \<open>(7797, 198, 1, 64)\<close>, which is the shape of the training sequences in the output the
  file records for cell 7 (line 181).
\<close>

fun answer :: "call \<Rightarrow> nat \<Rightarrow> pyval" where
  "answer (Call (Attr obj a) args kwargs) n =
     (if a = ''shape'' then PyTuple [PyInt 7797, PyInt 198, PyInt 1, PyInt 64] else PyObj n)"
| "answer c n = PyObj n"

text \<open>A library that answers every call and leaves the environment alone; the world
  outside the script is the number of calls made.\<close>

definition demo_lib :: "nat lib" where
  "demo_lib c = (\<lambda>(env, n). (Inr (answer c n), env, Suc n))"

text \<open>The same library, moving the output directory at every call.\<close>

definition moving_lib :: "nat lib" where
  "moving_lib c = (\<lambda>(env, n).
     (Inr (answer c n), env(''JANGGU_OUTPUT'' \<mapsto> ''/tmp/elsewhere''), Suc n))"

text \<open>A library that raises an exception at its \<open>k\<close>-th call.\<close>

definition failing_lib :: "nat \<Rightarrow> nat lib" where
  "failing_lib k c = (\<lambda>(env, n).
     (if n = k then Inl (PyExn ''OSError'' (PyStr ''no such file'')) else Inr (PyObj n),
      env, Suc n))"

text \<open>What the run against \<open>demo_lib\<close> from an empty environment binds.\<close>

definition demo_ns :: namespace where
  "demo_ns =
     \<lparr>REFGENOME_of = PyObj 16, ROI_TRAIN_FILE_of = PyObj 17, ROI_TEST_FILE_of = PyObj 18,
      PEAK_FILE_of = PyObj 19, DNA_of = PyObj 20, LABELS_of = PyObj 22,
      DNA_TEST_of = PyObj 23, LABELS_TEST_of = PyObj 25, xin_of = PyObj 32,
      layer_of = PyObj 37, output_of = PyObj 39, model_of = PyObj 40, hist_of = PyObj 43,
      pred_of = PyObj 54, cov_pred_of = PyObj 56\<rparr>"

section \<open>Sequencing and the single operations\<close>

lemma seq_assoc_E:
  "seq (seq m f) g s = r \<Longrightarrow> (seq m (\<lambda>x. seq (f x) g) s = r \<Longrightarrow> P) \<Longrightarrow> P"
  by (simp add: seq_def split: prod.splits sum.splits)

lemma seq_ret_E: "seq (ret x) f s = r \<Longrightarrow> (f x s = r \<Longrightarrow> P) \<Longrightarrow> P"
  by (simp add: seq_def ret_def)

lemma ret_E: "ret x s = (Inr y, s') \<Longrightarrow> (y = x \<Longrightarrow> s' = s \<Longrightarrow> P) \<Longrightarrow> P"
  by (auto simp: ret_def)

lemma seq_E:
  assumes "seq m f s = (Inr y, s')"
  obtains x s1 where "m s = (Inr x, s1)" and "f x s1 = (Inr y, s')"
  using assms by (auto simp: seq_def split: prod.splits sum.splits)

lemma perform_E:
  assumes "perform lib c s = (Inr v, s')"
  shows "trace s' = trace s @ [Ev c (Inr v)]"
  using assms by (auto simp: perform_def split: prod.splits)

lemma perform_then_E:
  assumes "seq (perform lib c) f s = (Inr y, s')"
  obtains v s1 where "trace s1 = trace s @ [Ev c (Inr v)]" and "f v s1 = (Inr y, s')"
  using assms by (elim seq_E) (drule perform_E, blast)

lemma perform_last_E:
  assumes "perform lib c s = (Inr y, s')"
  obtains "trace s' = trace s @ [Ev c (Inr y)]"
  using assms by (drule_tac perform_E) blast

lemma setitem_E:
  assumes "environ_setitem k v s = (Inr y, s')"
  obtains "trace s' = trace s @ [EnvSet k v]"
  using assms by (auto simp: environ_setitem_def)

lemma getitem_then_E:
  assumes "seq (environ_getitem k) f s = (Inr y, s')"
  obtains v s1 where "trace s1 = trace s @ [EnvGet k (Inr (PyStr v))]"
    and "f (PyStr v) s1 = (Inr y, s')"
proof -
  from assms obtain x s1 where a: "environ_getitem k s = (Inr x, s1)" and b: "f x s1 = (Inr y, s')"
    by (rule seq_E)
  from a obtain v where "x = PyStr v" and "trace s1 = trace s @ [EnvGet k (Inr (PyStr v))]"
    by (auto simp: environ_getitem_def Let_def split: option.splits)
  with b show thesis by (auto intro: that)
qed

lemmas wrappers = last_of_history_def export_to_bigwig_def py_import_def func_def invoke_def
  getattr_def do_all.simps

lemmas steps = seq_assoc_E perform_then_E getitem_then_E seq_ret_E ret_E perform_last_E


section \<open>Every run: the operations in order, and where a failure ends it\<close>

lemma emits_ret: "emits (ret x) []"
  by (simp add: emits_def ret_def)

lemma emits_perform: "emits (perform lib c) [label (Ev c r)]"
  unfolding emits_def
proof
  fix s :: "'a state"
  obtain q env' w' where l: "lib c (environ s, extern s) = (q, env', w')"
    by (cases "lib c (environ s, extern s)")
  have t: "trace (snd (perform lib c s)) = trace s @ [Ev c q]"
    and q: "fst (perform lib c s) = q"
    by (simp_all add: perform_def l)
  have lab: "label (Ev c q) = label (Ev c r)"
    by (cases c) simp
  have "case q of
        Inr x \<Rightarrow> map label [Ev c q] = [label (Ev c r)] \<and> list_all succeeded [Ev c q]
      | Inl e \<Rightarrow> [Ev c q] \<noteq> [] \<and> prefix (map label [Ev c q]) [label (Ev c r)] \<and>
          list_all succeeded (butlast [Ev c q]) \<and> outcome_of (last [Ev c q]) = Inl e"
    using lab by (cases q) simp_all
  with t q show "\<exists>evs. trace (snd (perform lib c s)) = trace s @ evs \<and>
     (case fst (perform lib c s) of
        Inr x \<Rightarrow> map label evs = [label (Ev c r)] \<and> list_all succeeded evs
      | Inl e \<Rightarrow> evs \<noteq> [] \<and> prefix (map label evs) [label (Ev c r)] \<and>
          list_all succeeded (butlast evs) \<and> outcome_of (last evs) = Inl e)"
    by (intro exI [where x = "[Ev c q]"]) simp
qed

lemma emits_func: "emits (func lib f args kwargs) [f]"
  using emits_perform [of lib "Call (Fn f) args kwargs" undefined] by (simp add: func_def)

lemma emits_invoke: "emits (invoke lib obj m args kwargs) [''.'' @ m @ ''()'']"
  using emits_perform [of lib "Call (Meth obj m) args kwargs" undefined] by (simp add: invoke_def)

lemma emits_getattr: "emits (getattr lib obj a) [''.'' @ a]"
  using emits_perform [of lib "Call (Attr obj a) [] []" undefined] by (simp add: getattr_def)

lemma emits_import: "emits (py_import lib m names) [''import '' @ m]"
  using emits_perform [of lib "Call (Import m names) [] []" undefined] by (simp add: py_import_def)

lemma emits_setitem: "emits (environ_setitem k v) [''os.environ.__setitem__'']"
  by (simp add: emits_def environ_setitem_def)

lemma emits_getitem: "emits (environ_getitem k) [''os.environ.__getitem__'']"
  unfolding emits_def
proof
  fix s :: "'a state"
  show "\<exists>evs. trace (snd (environ_getitem k s)) = trace s @ evs \<and>
     (case fst (environ_getitem k s) of
        Inr x \<Rightarrow> map label evs = [''os.environ.__getitem__''] \<and> list_all succeeded evs
      | Inl e \<Rightarrow> evs \<noteq> [] \<and> prefix (map label evs) [''os.environ.__getitem__''] \<and>
          list_all succeeded (butlast evs) \<and> outcome_of (last evs) = Inl e)"
    by (cases "environ s k") (simp_all add: environ_getitem_def Let_def)
qed

lemma emits_seq:
  assumes m: "emits m ls1" and f: "\<And>x. emits (f x) ls2"
  shows "emits (seq m f) (ls1 @ ls2)"
  unfolding emits_def
proof
  fix s
  from m obtain evs where t: "trace (snd (m s)) = trace s @ evs"
    and c: "case fst (m s) of
        Inr x \<Rightarrow> map label evs = ls1 \<and> list_all succeeded evs
      | Inl e \<Rightarrow> evs \<noteq> [] \<and> prefix (map label evs) ls1 \<and>
          list_all succeeded (butlast evs) \<and> outcome_of (last evs) = Inl e"
    unfolding emits_def by blast
  obtain q s1 where ms: "m s = (q, s1)" by (cases "m s")
  show "\<exists>evs. trace (snd (seq m f s)) = trace s @ evs \<and>
     (case fst (seq m f s) of
        Inr x \<Rightarrow> map label evs = ls1 @ ls2 \<and> list_all succeeded evs
      | Inl e \<Rightarrow> evs \<noteq> [] \<and> prefix (map label evs) (ls1 @ ls2) \<and>
          list_all succeeded (butlast evs) \<and> outcome_of (last evs) = Inl e)"
  proof (cases q)
    case (Inl e)
    with ms t c show ?thesis
      by (intro exI [where x = evs]) (auto simp: seq_def intro: prefix_order.trans)
  next
    case (Inr x)
    from f [of x] obtain evs2 where t2: "trace (snd (f x s1)) = trace s1 @ evs2"
      and c2: "case fst (f x s1) of
          Inr y \<Rightarrow> map label evs2 = ls2 \<and> list_all succeeded evs2
        | Inl e \<Rightarrow> evs2 \<noteq> [] \<and> prefix (map label evs2) ls2 \<and>
            list_all succeeded (butlast evs2) \<and> outcome_of (last evs2) = Inl e"
      unfolding emits_def by blast
    from Inr ms t c t2 c2 show ?thesis
      by (intro exI [where x = "evs @ evs2"])
        (auto simp: seq_def butlast_append split: sum.splits)
  qed
qed

lemma emits_case_prod: "(\<And>a b. emits (f a b) ls) \<Longrightarrow> emits (case_prod f x) ls"
  by (cases x) simp

lemma emits_eq: "emits m ls' \<Longrightarrow> ls' = ls \<Longrightarrow> emits m ls"
  by simp

lemmas emits_rules = emits_seq emits_ret emits_func emits_invoke emits_getattr emits_import
  emits_setitem emits_getitem emits_case_prod


lemma emits_cell1: "emits (cell1 lib)
   [''import os'', ''import numpy'', ''import keras'', ''import keras'',
    ''import keras.layers'', ''import keras.layers'', ''import keras.layers'',
    ''import keras.layers'', ''import pkg_resources'', ''import janggu.data'',
    ''import janggu.data'', ''import janggu.data'', ''import janggu.layers'',
    ''import sklearn.metrics'']"
  unfolding cell1_def do_all.simps
  by (rule emits_eq, (rule emits_rules)+, simp)

lemma emits_cell2: "emits (cell2 lib)
   [''import IPython.display'', ''np.random.seed'']"
  unfolding cell2_def
  by (rule emits_eq, (rule emits_rules)+, simp)

lemma emits_cell3: "emits cell3
   [''os.environ.__setitem__'']"
  unfolding cell3_def
  by (rule emits_eq, (rule emits_rules)+, simp)

lemma emits_cell5: "emits (cell5 lib)
   [''resource_filename'', ''resource_filename'', ''resource_filename'',
    ''resource_filename'']"
  unfolding cell5_def
  by (rule emits_eq, (rule emits_rules)+, simp)

lemma emits_cell6: "emits (cell6 lib a b c d)
   [''Bioseq.create_from_refgenome'', ''Cover.create_from_bed'', ''ReduceDim'',
    ''Bioseq.create_from_refgenome'', ''Cover.create_from_bed'', ''ReduceDim'']"
  unfolding cell6_def
  by (rule emits_eq, (rule emits_rules)+, simp)

lemma emits_cell7: "emits (cell7 lib a b c d)
   [''.shape'', ''.shape'', ''print'', ''.shape'', ''.shape'', ''print'']"
  unfolding cell7_def
  by (rule emits_eq, (rule emits_rules)+, simp)

lemma emits_cell8: "emits (cell8 lib)
   [''Input'', ''Conv2D'', ''DnaConv2D'', ''.__call__()'', ''GlobalAveragePooling2D'',
    ''.__call__()'', ''Dense'', ''.__call__()'', ''Model'', ''.compile()'', ''.summary()'']"
  unfolding cell8_def
  by (rule emits_eq, (rule emits_rules)+, simp)

lemma emits_cell9: "emits (cell9 lib a b c)
   [''.fit()'', ''print'', ''.history'', ''.__getitem__()'', ''.__getitem__()'',
    ''.history'', ''.__getitem__()'', ''.__getitem__()'', ''.format()'', ''print'', ''print'']"
  unfolding cell9_def last_of_history_def
  by (rule emits_eq, (rule emits_rules)+, simp)

lemma emits_cell10: "emits (cell10 lib a b c)
   [''.predict()'', ''.gindexer'', ''Cover.create_from_array'',
    ''os.environ.__getitem__'', ''.export_to_bigwig()'']"
  unfolding cell10_def export_to_bigwig_def
  by (rule emits_eq, (rule emits_rules)+, simp)

lemma emits_cell11: "emits (cell11 lib a b)
   [''.__getitem__()'', ''roc_auc_score'', ''print'']"
  unfolding cell11_def
  by (rule emits_eq, (rule emits_rules)+, simp)

lemmas emits_cells = emits_cell1 emits_cell2 emits_cell3 emits_cell5 emits_cell6 emits_cell7
  emits_cell8 emits_cell9 emits_cell10 emits_cell11

lemma emits_notebook: "emits (notebook lib) script_labels"
  unfolding notebook_def
  by (rule emits_eq, (rule emits_seq emits_case_prod emits_ret emits_cells)+)
    (simp add: script_labels_def prologue_def step1_def paths_def step2_def step3_def
      shapes_def step4_def step5_def step6_def step7_def)

section \<open>Complete runs: the events, with the values passed along\<close>

lemma cell1_complete:
  assumes "cell1 lib s = (Inr x, s')"
  shows "\<exists>r::nat \<Rightarrow> pyval. trace s' = trace s @
     [Ev (Call (Import ''os'' []) [] []) (Inr (r 0)),
      Ev (Call (Import ''numpy'' []) [] []) (Inr (r 1)),
      Ev (Call (Import ''keras'' [''Model'']) [] []) (Inr (r 2)),
      Ev (Call (Import ''keras'' [''backend'']) [] []) (Inr (r 3)),
      Ev (Call (Import ''keras.layers'' [''Conv2D'']) [] []) (Inr (r 4)),
      Ev (Call (Import ''keras.layers'' [''Dense'']) [] []) (Inr (r 5)),
      Ev (Call (Import ''keras.layers'' [''GlobalAveragePooling2D'']) [] []) (Inr (r 6)),
      Ev (Call (Import ''keras.layers'' [''Input'']) [] []) (Inr (r 7)),
      Ev (Call (Import ''pkg_resources'' [''resource_filename'']) [] []) (Inr (r 8)),
      Ev (Call (Import ''janggu.data'' [''Bioseq'']) [] []) (Inr (r 9)),
      Ev (Call (Import ''janggu.data'' [''Cover'']) [] []) (Inr (r 10)),
      Ev (Call (Import ''janggu.data'' [''ReduceDim'']) [] []) (Inr (r 11)),
      Ev (Call (Import ''janggu.layers'' [''DnaConv2D'']) [] []) (Inr (r 12)),
      Ev (Call (Import ''sklearn.metrics'' [''roc_auc_score'']) [] []) (Inr (r 13))]"
  using assms unfolding cell1_def wrappers
  apply (elim steps)
  apply (rule exI [where x = "\<lambda>i. returned (drop (length (trace s)) (trace s') ! i)"])
  apply (simp add: order_def pow_def)
  done

lemma cell2_complete:
  assumes "cell2 lib s = (Inr x, s')"
  shows "\<exists>r::nat \<Rightarrow> pyval. trace s' = trace s @
     [Ev (Call (Import ''IPython.display'' [''Image'']) [] []) (Inr (r 0)),
      Ev (Call (Fn ''np.random.seed'') [PyInt 1234] []) (Inr (r 1))]"
  using assms unfolding cell2_def wrappers
  apply (elim steps)
  apply (rule exI [where x = "\<lambda>i. returned (drop (length (trace s)) (trace s') ! i)"])
  apply (simp add: order_def pow_def)
  done

lemma cell3_complete:
  assumes "cell3 s = (Inr x, s')"
  shows "trace s' = trace s @ [EnvSet ''JANGGU_OUTPUT'' ''/home/wkopp/janggu_examples'']"
  using assms unfolding cell3_def by (rule setitem_E)

lemma cell5_complete:
  assumes "cell5 lib s = (Inr x, s')"
  shows "\<exists>r::nat \<Rightarrow> pyval. trace s' = trace s @
     [Ev (Call (Fn ''resource_filename'') [PyStr ''janggu'', PyStr ''resources/pseudo_genome.fa''] []) (Inr (r 0)),
      Ev (Call (Fn ''resource_filename'') [PyStr ''janggu'', PyStr ''resources/roi_train.bed''] []) (Inr (r 1)),
      Ev (Call (Fn ''resource_filename'') [PyStr ''janggu'', PyStr ''resources/roi_test.bed''] []) (Inr (r 2)),
      Ev (Call (Fn ''resource_filename'') [PyStr ''janggu'', PyStr ''resources/scores.bed''] []) (Inr (r 3))]
    \<and> x = (r 0, r 1, r 2, r 3)"
  using assms unfolding cell5_def wrappers
  apply (elim steps)
  apply (rule exI [where x = "\<lambda>i. returned (drop (length (trace s)) (trace s') ! i)"])
  apply (simp add: order_def pow_def)
  done

lemma cell6_complete:
  assumes "cell6 lib R T U P s = (Inr x, s')"
  shows "\<exists>r::nat \<Rightarrow> pyval. trace s' = trace s @
     [Ev (Call (Fn ''Bioseq.create_from_refgenome'') [PyStr ''dna'']
            [(''refgenome'', R), (''roi'', T), (''binsize'', PyInt 200), (''order'', PyInt 3),
             (''cache'', PyBool True)]) (Inr (r 0)),
      Ev (Call (Fn ''Cover.create_from_bed'') [PyStr ''peaks'']
            [(''roi'', T), (''bedfiles'', P), (''binsize'', PyInt 200),
             (''resolution'', PyInt 200), (''cache'', PyBool True),
             (''storage'', PyStr ''sparse'')]) (Inr (r 1)),
      Ev (Call (Fn ''ReduceDim'') [r 1] []) (Inr (r 2)),
      Ev (Call (Fn ''Bioseq.create_from_refgenome'') [PyStr ''dna'']
            [(''refgenome'', R), (''roi'', U), (''binsize'', PyInt 200), (''order'', PyInt 3)])
         (Inr (r 3)),
      Ev (Call (Fn ''Cover.create_from_bed'') [PyStr ''peaks'']
            [(''bedfiles'', P), (''roi'', U), (''binsize'', PyInt 200),
             (''resolution'', PyInt 200), (''storage'', PyStr ''sparse'')]) (Inr (r 4)),
      Ev (Call (Fn ''ReduceDim'') [r 4] []) (Inr (r 5))]
    \<and> x = (r 0, r 2, r 3, r 5)"
  using assms unfolding cell6_def wrappers
  apply (elim steps)
  apply (rule exI [where x = "\<lambda>i. returned (drop (length (trace s)) (trace s') ! i)"])
  apply (simp add: order_def pow_def)
  done

lemma cell7_complete:
  assumes "cell7 lib D L DT LT s = (Inr x, s')"
  shows "\<exists>r::nat \<Rightarrow> pyval. trace s' = trace s @
     [Ev (Call (Attr D ''shape'') [] []) (Inr (r 0)),
      Ev (Call (Attr L ''shape'') [] []) (Inr (r 1)),
      Ev (Call (Fn ''print'') [PyStr ''training set:'', r 0, r 1] []) (Inr (r 2)),
      Ev (Call (Attr DT ''shape'') [] []) (Inr (r 3)),
      Ev (Call (Attr LT ''shape'') [] []) (Inr (r 4)),
      Ev (Call (Fn ''print'') [PyStr ''test set:'', r 3, r 4] []) (Inr (r 5))]"
  using assms unfolding cell7_def wrappers
  apply (elim steps)
  apply (rule exI [where x = "\<lambda>i. returned (drop (length (trace s)) (trace s') ! i)"])
  apply (simp add: order_def pow_def)
  done

lemma cell8_complete:
  assumes "cell8 lib s = (Inr x, s')"
  shows "\<exists>r::nat \<Rightarrow> pyval. trace s' = trace s @
     [Ev (Call (Fn ''Input'') [PyTuple [PyInt 198, PyInt 1, PyInt 64]] []) (Inr (r 0)),
      Ev (Call (Fn ''Conv2D'') [PyInt 30, PyTuple [PyInt 21, PyInt 1]]
            [(''activation'', PyStr ''relu'')]) (Inr (r 1)),
      Ev (Call (Fn ''DnaConv2D'') [r 1] []) (Inr (r 2)),
      Ev (Call (Meth (r 2) ''__call__'') [r 0] []) (Inr (r 3)),
      Ev (Call (Fn ''GlobalAveragePooling2D'') [] []) (Inr (r 4)),
      Ev (Call (Meth (r 4) ''__call__'') [r 3] []) (Inr (r 5)),
      Ev (Call (Fn ''Dense'') [PyInt 1] [(''activation'', PyStr ''sigmoid'')]) (Inr (r 6)),
      Ev (Call (Meth (r 6) ''__call__'') [r 5] []) (Inr (r 7)),
      Ev (Call (Fn ''Model'') [r 0, r 7] []) (Inr (r 8)),
      Ev (Call (Meth (r 8) ''compile'') []
            [(''optimizer'', PyStr ''adadelta''), (''loss'', PyStr ''binary_crossentropy''),
             (''metrics'', PyList [PyStr ''acc''])]) (Inr (r 9)),
      Ev (Call (Meth (r 8) ''summary'') [] []) (Inr (r 10))]
    \<and> x = (r 0, r 5, r 7, r 8)"
  using assms unfolding cell8_def wrappers
  apply (elim steps)
  apply (rule exI [where x = "\<lambda>i. returned (drop (length (trace s)) (trace s') ! i)"])
  apply (simp add: order_def pow_def)
  done

lemma cell9_complete:
  assumes "cell9 lib M D L s = (Inr x, s')"
  shows "\<exists>r::nat \<Rightarrow> pyval. trace s' = trace s @
     [Ev (Call (Meth M ''fit'') [D, L] [(''epochs'', PyInt 100)]) (Inr (r 0)),
      Ev (Call (Fn ''print'') [PyStr (replicate 40 CHR ''#'')] []) (Inr (r 1)),
      Ev (Call (Attr (r 0) ''history'') [] []) (Inr (r 2)),
      Ev (Call (Meth (r 2) ''__getitem__'') [PyStr ''loss''] []) (Inr (r 3)),
      Ev (Call (Meth (r 3) ''__getitem__'') [PyInt (- 1)] []) (Inr (r 4)),
      Ev (Call (Attr (r 0) ''history'') [] []) (Inr (r 5)),
      Ev (Call (Meth (r 5) ''__getitem__'') [PyStr ''acc''] []) (Inr (r 6)),
      Ev (Call (Meth (r 6) ''__getitem__'') [PyInt (- 1)] []) (Inr (r 7)),
      Ev (Call (Meth (PyStr ''loss: {}, acc: {}'') ''format'') [r 4, r 7] []) (Inr (r 8)),
      Ev (Call (Fn ''print'') [r 8] []) (Inr (r 9)),
      Ev (Call (Fn ''print'') [PyStr (replicate 40 CHR ''#'')] []) (Inr (r 10))]
    \<and> x = r 0"
  using assms unfolding cell9_def wrappers
  apply (elim steps)
  apply (rule exI [where x = "\<lambda>i. returned (drop (length (trace s)) (trace s') ! i)"])
  apply (simp add: order_def pow_def)
  done

lemma cell10_complete:
  assumes "cell10 lib M DT LT s = (Inr x, s')"
  shows "\<exists>r::nat \<Rightarrow> pyval. trace s' = trace s @
     [Ev (Call (Meth M ''predict'') [DT] []) (Inr (r 0)),
      Ev (Call (Attr LT ''gindexer'') [] []) (Inr (r 1)),
      Ev (Call (Fn ''Cover.create_from_array'') [PyStr ''BindingProba'', r 0, r 1] []) (Inr (r 2)),
      EnvGet ''JANGGU_OUTPUT'' (Inr (r 3)),
      Ev (Call (Meth (r 2) ''export_to_bigwig'') [] [(''output_dir'', r 3)]) (Inr (r 4))]
    \<and> x = (r 0, r 2) \<and> (\<exists>dir. r 3 = PyStr dir)"
  using assms unfolding cell10_def wrappers
  apply (elim steps)
  apply (rule exI [where x = "\<lambda>i. returned (drop (length (trace s)) (trace s') ! i)"])
  apply (simp add: order_def pow_def)
  done

lemma cell11_complete:
  assumes "cell11 lib LT p s = (Inr x, s')"
  shows "\<exists>r::nat \<Rightarrow> pyval. trace s' = trace s @
     [Ev (Call (Meth LT ''__getitem__'') [PySlice PyNone PyNone PyNone] []) (Inr (r 0)),
      Ev (Call (Fn ''roc_auc_score'') [r 0, p] []) (Inr (r 1)),
      Ev (Call (Fn ''print'') [PyStr ''AUC:'', r 1] []) (Inr (r 2))]"
  using assms unfolding cell11_def wrappers
  apply (elim steps)
  apply (rule exI [where x = "\<lambda>i. returned (drop (length (trace s)) (trace s') ! i)"])
  apply (simp add: order_def pow_def)
  done

lemma notebook_complete:
  assumes "run lib env w = (Inr g, s)"
  shows "\<exists>r::nat \<Rightarrow> pyval. trace s =
     [Ev (Call (Import ''os'' []) [] []) (Inr (r 0)),
      Ev (Call (Import ''numpy'' []) [] []) (Inr (r 1)),
      Ev (Call (Import ''keras'' [''Model'']) [] []) (Inr (r 2)),
      Ev (Call (Import ''keras'' [''backend'']) [] []) (Inr (r 3)),
      Ev (Call (Import ''keras.layers'' [''Conv2D'']) [] []) (Inr (r 4)),
      Ev (Call (Import ''keras.layers'' [''Dense'']) [] []) (Inr (r 5)),
      Ev (Call (Import ''keras.layers'' [''GlobalAveragePooling2D'']) [] []) (Inr (r 6)),
      Ev (Call (Import ''keras.layers'' [''Input'']) [] []) (Inr (r 7)),
      Ev (Call (Import ''pkg_resources'' [''resource_filename'']) [] []) (Inr (r 8)),
      Ev (Call (Import ''janggu.data'' [''Bioseq'']) [] []) (Inr (r 9)),
      Ev (Call (Import ''janggu.data'' [''Cover'']) [] []) (Inr (r 10)),
      Ev (Call (Import ''janggu.data'' [''ReduceDim'']) [] []) (Inr (r 11)),
      Ev (Call (Import ''janggu.layers'' [''DnaConv2D'']) [] []) (Inr (r 12)),
      Ev (Call (Import ''sklearn.metrics'' [''roc_auc_score'']) [] []) (Inr (r 13)),
      Ev (Call (Import ''IPython.display'' [''Image'']) [] []) (Inr (r 14)),
      Ev (Call (Fn ''np.random.seed'') [PyInt 1234] []) (Inr (r 15)),
      EnvSet ''JANGGU_OUTPUT'' ''/home/wkopp/janggu_examples'',
      Ev (Call (Fn ''resource_filename'')
            [PyStr ''janggu'', PyStr ''resources/pseudo_genome.fa''] []) (Inr (r 17)),
      Ev (Call (Fn ''resource_filename'')
            [PyStr ''janggu'', PyStr ''resources/roi_train.bed''] []) (Inr (r 18)),
      Ev (Call (Fn ''resource_filename'')
            [PyStr ''janggu'', PyStr ''resources/roi_test.bed''] []) (Inr (r 19)),
      Ev (Call (Fn ''resource_filename'')
            [PyStr ''janggu'', PyStr ''resources/scores.bed''] []) (Inr (r 20)),
      Ev (Call (Fn ''Bioseq.create_from_refgenome'') [PyStr ''dna'']
            [(''refgenome'', r 17), (''roi'', r 18), (''binsize'', PyInt 200),
             (''order'', PyInt 3), (''cache'', PyBool True)]) (Inr (r 21)),
      Ev (Call (Fn ''Cover.create_from_bed'') [PyStr ''peaks'']
            [(''roi'', r 18), (''bedfiles'', r 20), (''binsize'', PyInt 200),
             (''resolution'', PyInt 200), (''cache'', PyBool True),
             (''storage'', PyStr ''sparse'')]) (Inr (r 22)),
      Ev (Call (Fn ''ReduceDim'') [r 22] []) (Inr (r 23)),
      Ev (Call (Fn ''Bioseq.create_from_refgenome'') [PyStr ''dna'']
            [(''refgenome'', r 17), (''roi'', r 19), (''binsize'', PyInt 200),
             (''order'', PyInt 3)]) (Inr (r 24)),
      Ev (Call (Fn ''Cover.create_from_bed'') [PyStr ''peaks'']
            [(''bedfiles'', r 20), (''roi'', r 19), (''binsize'', PyInt 200),
             (''resolution'', PyInt 200), (''storage'', PyStr ''sparse'')]) (Inr (r 25)),
      Ev (Call (Fn ''ReduceDim'') [r 25] []) (Inr (r 26)),
      Ev (Call (Attr (r 21) ''shape'') [] []) (Inr (r 27)),
      Ev (Call (Attr (r 23) ''shape'') [] []) (Inr (r 28)),
      Ev (Call (Fn ''print'') [PyStr ''training set:'', r 27, r 28] []) (Inr (r 29)),
      Ev (Call (Attr (r 24) ''shape'') [] []) (Inr (r 30)),
      Ev (Call (Attr (r 26) ''shape'') [] []) (Inr (r 31)),
      Ev (Call (Fn ''print'') [PyStr ''test set:'', r 30, r 31] []) (Inr (r 32)),
      Ev (Call (Fn ''Input'') [PyTuple [PyInt 198, PyInt 1, PyInt 64]] []) (Inr (r 33)),
      Ev (Call (Fn ''Conv2D'') [PyInt 30, PyTuple [PyInt 21, PyInt 1]]
            [(''activation'', PyStr ''relu'')]) (Inr (r 34)),
      Ev (Call (Fn ''DnaConv2D'') [r 34] []) (Inr (r 35)),
      Ev (Call (Meth (r 35) ''__call__'') [r 33] []) (Inr (r 36)),
      Ev (Call (Fn ''GlobalAveragePooling2D'') [] []) (Inr (r 37)),
      Ev (Call (Meth (r 37) ''__call__'') [r 36] []) (Inr (r 38)),
      Ev (Call (Fn ''Dense'') [PyInt 1] [(''activation'', PyStr ''sigmoid'')]) (Inr (r 39)),
      Ev (Call (Meth (r 39) ''__call__'') [r 38] []) (Inr (r 40)),
      Ev (Call (Fn ''Model'') [r 33, r 40] []) (Inr (r 41)),
      Ev (Call (Meth (r 41) ''compile'') []
            [(''optimizer'', PyStr ''adadelta''), (''loss'', PyStr ''binary_crossentropy''),
             (''metrics'', PyList [PyStr ''acc''])]) (Inr (r 42)),
      Ev (Call (Meth (r 41) ''summary'') [] []) (Inr (r 43)),
      Ev (Call (Meth (r 41) ''fit'') [r 21, r 23] [(''epochs'', PyInt 100)]) (Inr (r 44)),
      Ev (Call (Fn ''print'') [PyStr (replicate 40 CHR ''#'')] []) (Inr (r 45)),
      Ev (Call (Attr (r 44) ''history'') [] []) (Inr (r 46)),
      Ev (Call (Meth (r 46) ''__getitem__'') [PyStr ''loss''] []) (Inr (r 47)),
      Ev (Call (Meth (r 47) ''__getitem__'') [PyInt (- 1)] []) (Inr (r 48)),
      Ev (Call (Attr (r 44) ''history'') [] []) (Inr (r 49)),
      Ev (Call (Meth (r 49) ''__getitem__'') [PyStr ''acc''] []) (Inr (r 50)),
      Ev (Call (Meth (r 50) ''__getitem__'') [PyInt (- 1)] []) (Inr (r 51)),
      Ev (Call (Meth (PyStr ''loss: {}, acc: {}'') ''format'') [r 48, r 51] []) (Inr (r 52)),
      Ev (Call (Fn ''print'') [r 52] []) (Inr (r 53)),
      Ev (Call (Fn ''print'') [PyStr (replicate 40 CHR ''#'')] []) (Inr (r 54)),
      Ev (Call (Meth (r 41) ''predict'') [r 24] []) (Inr (r 55)),
      Ev (Call (Attr (r 26) ''gindexer'') [] []) (Inr (r 56)),
      Ev (Call (Fn ''Cover.create_from_array'') [PyStr ''BindingProba'', r 55, r 56] [])
        (Inr (r 57)),
      EnvGet ''JANGGU_OUTPUT'' (Inr (r 58)),
      Ev (Call (Meth (r 57) ''export_to_bigwig'') [] [(''output_dir'', r 58)]) (Inr (r 59)),
      Ev (Call (Meth (r 26) ''__getitem__'') [PySlice PyNone PyNone PyNone] []) (Inr (r 60)),
      Ev (Call (Fn ''roc_auc_score'') [r 60, r 55] []) (Inr (r 61)),
      Ev (Call (Fn ''print'') [PyStr ''AUC:'', r 61] []) (Inr (r 62))]
    \<and> g = \<lparr>REFGENOME_of = r 17, ROI_TRAIN_FILE_of = r 18, ROI_TEST_FILE_of = r 19,
          PEAK_FILE_of = r 20, DNA_of = r 21, LABELS_of = r 23, DNA_TEST_of = r 24,
          LABELS_TEST_of = r 26, xin_of = r 33, layer_of = r 38, output_of = r 40,
          model_of = r 41, hist_of = r 44, pred_of = r 55, cov_pred_of = r 57\<rparr>
    \<and> (\<exists>dir. r 58 = PyStr dir)"
  apply (insert assms)
  unfolding run_def notebook_def
  apply (erule seq_E, drule cell1_complete, erule exE)
  apply (erule seq_E, drule cell2_complete, erule exE)
  apply (erule seq_E, drule cell3_complete)
  apply (erule seq_E, drule cell5_complete, elim exE conjE)
  apply (simp only: prod.case)
  apply (erule seq_E, drule cell6_complete, elim exE conjE)
  apply (simp only: prod.case)
  apply (erule seq_E, drule cell7_complete, erule exE)
  apply (erule seq_E, drule cell8_complete, elim exE conjE)
  apply (simp only: prod.case)
  apply (erule seq_E, drule cell9_complete, elim exE conjE)
  apply (simp only: prod.case)
  apply (erule seq_E, drule cell10_complete, elim exE conjE)
  apply (simp only: prod.case)
  apply (erule seq_E, drule cell11_complete, erule exE)
  apply (erule ret_E)
  apply (rule exI [where x = "\<lambda>i. returned (trace s ! i)"])
  apply simp
  done

section \<open>Three concrete runs\<close>

text \<open>
  The run against \<open>demo_lib\<close> completes and binds \<open>demo_ns\<close>; the run against
  \<open>failing_lib 20\<close> ends in cell 6, where the first dataset is loaded.
\<close>

lemmas eval_defs = wrappers seq_def ret_def perform_def environ_setitem_def environ_getitem_def
  Let_def

lemma cell1_demo: "\<exists>t'. cell1 demo_lib \<lparr>environ = e, extern = n, trace = t\<rparr> =
    (Inr (), \<lparr>environ = e, extern = n + 14, trace = t'\<rparr>)"
  by (simp add: cell1_def eval_defs demo_lib_def)

lemma cell2_demo: "\<exists>t'. cell2 demo_lib \<lparr>environ = e, extern = n, trace = t\<rparr> =
    (Inr (PyObj (n + 1)), \<lparr>environ = e, extern = n + 2, trace = t'\<rparr>)"
  by (simp add: cell2_def eval_defs demo_lib_def)

lemma cell3_demo: "\<exists>t'. cell3 \<lparr>environ = e, extern = n, trace = t\<rparr> =
    (Inr (), \<lparr>environ = e(''JANGGU_OUTPUT'' \<mapsto> ''/home/wkopp/janggu_examples''),
       extern = n, trace = t'\<rparr>)"
  by (simp add: cell3_def eval_defs)

lemma cell5_demo: "\<exists>t'. cell5 demo_lib \<lparr>environ = e, extern = n, trace = t\<rparr> =
    (Inr (PyObj n, PyObj (n + 1), PyObj (n + 2), PyObj (n + 3)),
     \<lparr>environ = e, extern = n + 4, trace = t'\<rparr>)"
  by (simp add: cell5_def eval_defs demo_lib_def)

lemma cell6_demo: "\<exists>t'. cell6 demo_lib a b c d \<lparr>environ = e, extern = n, trace = t\<rparr> =
    (Inr (PyObj n, PyObj (n + 2), PyObj (n + 3), PyObj (n + 5)),
     \<lparr>environ = e, extern = n + 6, trace = t'\<rparr>)"
  by (simp add: cell6_def eval_defs demo_lib_def)

lemma cell7_demo: "\<exists>t'. cell7 demo_lib a b c d \<lparr>environ = e, extern = n, trace = t\<rparr> =
    (Inr (PyObj (n + 5)), \<lparr>environ = e, extern = n + 6, trace = t'\<rparr>)"
  by (simp add: cell7_def eval_defs demo_lib_def)

lemma cell8_demo: "\<exists>t'. cell8 demo_lib \<lparr>environ = e, extern = n, trace = t\<rparr> =
    (Inr (PyObj n, PyObj (n + 5), PyObj (n + 7), PyObj (n + 8)),
     \<lparr>environ = e, extern = n + 11, trace = t'\<rparr>)"
  by (simp add: cell8_def eval_defs demo_lib_def)

lemma cell9_demo: "\<exists>t'. cell9 demo_lib a b c \<lparr>environ = e, extern = n, trace = t\<rparr> =
    (Inr (PyObj n), \<lparr>environ = e, extern = n + 11, trace = t'\<rparr>)"
  by (simp add: cell9_def eval_defs demo_lib_def)

lemma cell10_demo: "e ''JANGGU_OUTPUT'' = Some v \<Longrightarrow>
   \<exists>t'. cell10 demo_lib a b c \<lparr>environ = e, extern = n, trace = t\<rparr> =
    (Inr (PyObj n, PyObj (n + 2)), \<lparr>environ = e, extern = n + 4, trace = t'\<rparr>)"
  by (simp add: cell10_def eval_defs demo_lib_def)

lemma cell11_demo: "\<exists>t'. cell11 demo_lib a b \<lparr>environ = e, extern = n, trace = t\<rparr> =
    (Inr (PyObj (n + 2)), \<lparr>environ = e, extern = n + 3, trace = t'\<rparr>)"
  by (simp add: cell11_def eval_defs demo_lib_def)

lemma demo_result: "result_of demo_lib Map.empty 0 = Inr demo_ns"
proof -
  let ?e = "(Map.empty :: string \<rightharpoonup> string)(''JANGGU_OUTPUT'' \<mapsto> ''/home/wkopp/janggu_examples'')"
  obtain t1 where 1: "cell1 demo_lib \<lparr>environ = Map.empty, extern = 0, trace = []\<rparr> =
      (Inr (), \<lparr>environ = Map.empty, extern = 14, trace = t1\<rparr>)"
    using cell1_demo [of Map.empty 0 "[]"] by auto
  obtain t2 where 2: "cell2 demo_lib \<lparr>environ = Map.empty, extern = 14, trace = t1\<rparr> =
      (Inr (PyObj 15), \<lparr>environ = Map.empty, extern = 16, trace = t2\<rparr>)"
    using cell2_demo [of Map.empty 14 t1] by auto
  obtain t3 where 3: "cell3 \<lparr>environ = Map.empty, extern = 16 :: nat, trace = t2\<rparr> =
      (Inr (), \<lparr>environ = ?e, extern = 16, trace = t3\<rparr>)"
    using cell3_demo [of Map.empty "16 :: nat" t2] by auto
  obtain t5 where 5: "cell5 demo_lib \<lparr>environ = ?e, extern = 16, trace = t3\<rparr> =
      (Inr (PyObj 16, PyObj 17, PyObj 18, PyObj 19), \<lparr>environ = ?e, extern = 20, trace = t5\<rparr>)"
    using cell5_demo [of ?e 16 t3] by auto
  obtain t6 where 6: "cell6 demo_lib (PyObj 16) (PyObj 17) (PyObj 18) (PyObj 19)
        \<lparr>environ = ?e, extern = 20, trace = t5\<rparr> =
      (Inr (PyObj 20, PyObj 22, PyObj 23, PyObj 25), \<lparr>environ = ?e, extern = 26, trace = t6\<rparr>)"
    using cell6_demo [of "PyObj 16" "PyObj 17" "PyObj 18" "PyObj 19" ?e 20 t5] by auto
  obtain t7 where 7: "cell7 demo_lib (PyObj 20) (PyObj 22) (PyObj 23) (PyObj 25)
        \<lparr>environ = ?e, extern = 26, trace = t6\<rparr> =
      (Inr (PyObj 31), \<lparr>environ = ?e, extern = 32, trace = t7\<rparr>)"
    using cell7_demo [of "PyObj 20" "PyObj 22" "PyObj 23" "PyObj 25" ?e 26 t6] by auto
  obtain t8 where 8: "cell8 demo_lib \<lparr>environ = ?e, extern = 32, trace = t7\<rparr> =
      (Inr (PyObj 32, PyObj 37, PyObj 39, PyObj 40), \<lparr>environ = ?e, extern = 43, trace = t8\<rparr>)"
    using cell8_demo [of ?e 32 t7] by auto
  obtain t9 where 9: "cell9 demo_lib (PyObj 40) (PyObj 20) (PyObj 22)
        \<lparr>environ = ?e, extern = 43, trace = t8\<rparr> =
      (Inr (PyObj 43), \<lparr>environ = ?e, extern = 54, trace = t9\<rparr>)"
    using cell9_demo [of "PyObj 40" "PyObj 20" "PyObj 22" ?e 43 t8] by auto
  obtain t10 where 10: "cell10 demo_lib (PyObj 40) (PyObj 23) (PyObj 25)
        \<lparr>environ = ?e, extern = 54, trace = t9\<rparr> =
      (Inr (PyObj 54, PyObj 56), \<lparr>environ = ?e, extern = 58, trace = t10\<rparr>)"
    using cell10_demo [of ?e _ "PyObj 40" "PyObj 23" "PyObj 25" 54 t9] by auto
  obtain t11 where 11: "cell11 demo_lib (PyObj 25) (PyObj 54)
        \<lparr>environ = ?e, extern = 58, trace = t10\<rparr> =
      (Inr (PyObj 60), \<lparr>environ = ?e, extern = 61, trace = t11\<rparr>)"
    using cell11_demo [of "PyObj 25" "PyObj 54" ?e 58 t10] by auto
  show ?thesis
    by (simp add: result_of_def run_def notebook_def seq_def ret_def demo_ns_def
        1 2 3 5 6 7 8 9 10 11)
qed


text \<open>The run against \<open>moving_lib\<close> completes and binds the same values.\<close>

lemma cell1_moving: "\<exists>e' t'. cell1 moving_lib \<lparr>environ = e, extern = n, trace = t\<rparr> =
    (Inr (),
     \<lparr>environ = e', extern = n + 14, trace = t'\<rparr>)"
  by (simp add: cell1_def eval_defs moving_lib_def)

lemma cell2_moving: "\<exists>e' t'. cell2 moving_lib \<lparr>environ = e, extern = n, trace = t\<rparr> =
    (Inr (PyObj (n + 1)),
     \<lparr>environ = e', extern = n + 2, trace = t'\<rparr>)"
  by (simp add: cell2_def eval_defs moving_lib_def)

lemma cell5_moving: "\<exists>e' t'. cell5 moving_lib \<lparr>environ = e, extern = n, trace = t\<rparr> =
    (Inr (PyObj n, PyObj (n + 1), PyObj (n + 2), PyObj (n + 3)),
     \<lparr>environ = e', extern = n + 4, trace = t'\<rparr>)"
  by (simp add: cell5_def eval_defs moving_lib_def)

lemma cell6_moving: "\<exists>e' t'. cell6 moving_lib a b c d \<lparr>environ = e, extern = n, trace = t\<rparr> =
    (Inr (PyObj n, PyObj (n + 2), PyObj (n + 3), PyObj (n + 5)),
     \<lparr>environ = e', extern = n + 6, trace = t'\<rparr>)"
  by (simp add: cell6_def eval_defs moving_lib_def)

lemma cell7_moving: "\<exists>e' t'. cell7 moving_lib a b c d \<lparr>environ = e, extern = n, trace = t\<rparr> =
    (Inr (PyObj (n + 5)),
     \<lparr>environ = e', extern = n + 6, trace = t'\<rparr>)"
  by (simp add: cell7_def eval_defs moving_lib_def)

lemma cell8_moving: "\<exists>e' t'. cell8 moving_lib \<lparr>environ = e, extern = n, trace = t\<rparr> =
    (Inr (PyObj n, PyObj (n + 5), PyObj (n + 7), PyObj (n + 8)),
     \<lparr>environ = e', extern = n + 11, trace = t'\<rparr>)"
  by (simp add: cell8_def eval_defs moving_lib_def)

lemma cell9_moving: "\<exists>e' t'. cell9 moving_lib a b c \<lparr>environ = e, extern = n, trace = t\<rparr> =
    (Inr (PyObj n),
     \<lparr>environ = e', extern = n + 11, trace = t'\<rparr>)"
  by (simp add: cell9_def eval_defs moving_lib_def)

lemma cell10_moving: "\<exists>e' t'. cell10 moving_lib a b c \<lparr>environ = e, extern = n, trace = t\<rparr> =
    (Inr (PyObj n, PyObj (n + 2)),
     \<lparr>environ = e', extern = n + 4, trace = t'\<rparr>)"
  by (simp add: cell10_def eval_defs moving_lib_def)

lemma cell11_moving: "\<exists>e' t'. cell11 moving_lib a b \<lparr>environ = e, extern = n, trace = t\<rparr> =
    (Inr (PyObj (n + 2)),
     \<lparr>environ = e', extern = n + 3, trace = t'\<rparr>)"
  by (simp add: cell11_def eval_defs moving_lib_def)

lemma moving_result: "result_of moving_lib Map.empty 0 = Inr demo_ns"
proof -
  obtain e1 t1 where 1: "cell1 moving_lib
        \<lparr>environ = Map.empty, extern = 0, trace = []\<rparr> =
      (Inr (),
       \<lparr>environ = e1, extern = 14, trace = t1\<rparr>)"
    using cell1_moving [of Map.empty 0 "[]"] by auto
  obtain e2 t2 where 2: "cell2 moving_lib
        \<lparr>environ = e1, extern = 14, trace = t1\<rparr> =
      (Inr (PyObj 15),
       \<lparr>environ = e2, extern = 16, trace = t2\<rparr>)"
    using cell2_moving [of  e1 14 t1] by auto
  obtain e3 t3 where 3: "cell3 \<lparr>environ = e2, extern = 16 :: nat, trace = t2\<rparr> =
      (Inr (), \<lparr>environ = e3, extern = 16, trace = t3\<rparr>)"
    using cell3_demo [of e2 "16 :: nat" t2] by auto
  obtain e5 t5 where 5: "cell5 moving_lib
        \<lparr>environ = e3, extern = 16, trace = t3\<rparr> =
      (Inr (PyObj 16, PyObj 17, PyObj 18, PyObj 19),
       \<lparr>environ = e5, extern = 20, trace = t5\<rparr>)"
    using cell5_moving [of  e3 16 t3] by auto
  obtain e6 t6 where 6: "cell6 moving_lib (PyObj 16) (PyObj 17) (PyObj 18) (PyObj 19)
        \<lparr>environ = e5, extern = 20, trace = t5\<rparr> =
      (Inr (PyObj 20, PyObj 22, PyObj 23, PyObj 25),
       \<lparr>environ = e6, extern = 26, trace = t6\<rparr>)"
    using cell6_moving [of "PyObj 16" "PyObj 17" "PyObj 18" "PyObj 19" e5 20 t5] by auto
  obtain e7 t7 where 7: "cell7 moving_lib (PyObj 20) (PyObj 22) (PyObj 23) (PyObj 25)
        \<lparr>environ = e6, extern = 26, trace = t6\<rparr> =
      (Inr (PyObj 31),
       \<lparr>environ = e7, extern = 32, trace = t7\<rparr>)"
    using cell7_moving [of "PyObj 20" "PyObj 22" "PyObj 23" "PyObj 25" e6 26 t6] by auto
  obtain e8 t8 where 8: "cell8 moving_lib
        \<lparr>environ = e7, extern = 32, trace = t7\<rparr> =
      (Inr (PyObj 32, PyObj 37, PyObj 39, PyObj 40),
       \<lparr>environ = e8, extern = 43, trace = t8\<rparr>)"
    using cell8_moving [of  e7 32 t7] by auto
  obtain e9 t9 where 9: "cell9 moving_lib (PyObj 40) (PyObj 20) (PyObj 22)
        \<lparr>environ = e8, extern = 43, trace = t8\<rparr> =
      (Inr (PyObj 43),
       \<lparr>environ = e9, extern = 54, trace = t9\<rparr>)"
    using cell9_moving [of "PyObj 40" "PyObj 20" "PyObj 22" e8 43 t8] by auto
  obtain e10 t10 where 10: "cell10 moving_lib (PyObj 40) (PyObj 23) (PyObj 25)
        \<lparr>environ = e9, extern = 54, trace = t9\<rparr> =
      (Inr (PyObj 54, PyObj 56),
       \<lparr>environ = e10, extern = 58, trace = t10\<rparr>)"
    using cell10_moving [of "PyObj 40" "PyObj 23" "PyObj 25" e9 54 t9] by auto
  obtain e11 t11 where 11: "cell11 moving_lib (PyObj 25) (PyObj 54)
        \<lparr>environ = e10, extern = 58, trace = t10\<rparr> =
      (Inr (PyObj 60),
       \<lparr>environ = e11, extern = 61, trace = t11\<rparr>)"
    using cell11_moving [of "PyObj 25" "PyObj 54" e10 58 t10] by auto
  show ?thesis
    by (simp add: result_of_def run_def notebook_def seq_def ret_def demo_ns_def
        1 2 3 5 6 7 8 9 10 11)
qed


lemma cell1_failing: "\<exists>t'. cell1 (failing_lib 20) \<lparr>environ = e, extern = 0, trace = t\<rparr> =
    (Inr (), \<lparr>environ = e, extern = 14, trace = t'\<rparr>)"
  by (simp add: cell1_def eval_defs failing_lib_def)

lemma cell2_failing: "\<exists>t'. cell2 (failing_lib 20) \<lparr>environ = e, extern = 14, trace = t\<rparr> =
    (Inr (PyObj 15), \<lparr>environ = e, extern = 16, trace = t'\<rparr>)"
  by (simp add: cell2_def eval_defs failing_lib_def)

lemma cell5_failing: "\<exists>t'. cell5 (failing_lib 20) \<lparr>environ = e, extern = 16, trace = t\<rparr> =
    (Inr (PyObj 16, PyObj 17, PyObj 18, PyObj 19),
     \<lparr>environ = e, extern = 20, trace = t'\<rparr>)"
  by (simp add: cell5_def eval_defs failing_lib_def)

lemma cell6_failing: "\<exists>t'. cell6 (failing_lib 20) a b c d \<lparr>environ = e, extern = 20, trace = t\<rparr> =
    (Inl (PyExn ''OSError'' (PyStr ''no such file'')),
     \<lparr>environ = e, extern = 21, trace = t'\<rparr>)"
  by (simp add: cell6_def eval_defs failing_lib_def)

lemma failing_result:
  "result_of (failing_lib 20) Map.empty 0 = Inl (PyExn ''OSError'' (PyStr ''no such file''))"
proof -
  let ?e = "(Map.empty :: string \<rightharpoonup> string)(''JANGGU_OUTPUT'' \<mapsto> ''/home/wkopp/janggu_examples'')"
  obtain t1 where 1: "cell1 (failing_lib 20) \<lparr>environ = Map.empty, extern = 0, trace = []\<rparr> =
      (Inr (), \<lparr>environ = Map.empty, extern = 14, trace = t1\<rparr>)"
    using cell1_failing [of Map.empty "[]"] by auto
  obtain t2 where 2: "cell2 (failing_lib 20) \<lparr>environ = Map.empty, extern = 14, trace = t1\<rparr> =
      (Inr (PyObj 15), \<lparr>environ = Map.empty, extern = 16, trace = t2\<rparr>)"
    using cell2_failing [of Map.empty t1] by auto
  obtain t3 where 3: "cell3 \<lparr>environ = Map.empty, extern = 16 :: nat, trace = t2\<rparr> =
      (Inr (), \<lparr>environ = ?e, extern = 16, trace = t3\<rparr>)"
    using cell3_demo [of Map.empty "16 :: nat" t2] by auto
  obtain t5 where 5: "cell5 (failing_lib 20) \<lparr>environ = ?e, extern = 16, trace = t3\<rparr> =
      (Inr (PyObj 16, PyObj 17, PyObj 18, PyObj 19), \<lparr>environ = ?e, extern = 20, trace = t5\<rparr>)"
    using cell5_failing [of ?e t3] by auto
  obtain t6 where 6: "cell6 (failing_lib 20) (PyObj 16) (PyObj 17) (PyObj 18) (PyObj 19)
        \<lparr>environ = ?e, extern = 20, trace = t5\<rparr> =
      (Inl (PyExn ''OSError'' (PyStr ''no such file'')),
       \<lparr>environ = ?e, extern = 21, trace = t6\<rparr>)"
    using cell6_failing [of "PyObj 16" "PyObj 17" "PyObj 18" "PyObj 19" ?e t5] by auto
  show ?thesis
    by (simp add: result_of_def run_def notebook_def seq_def 1 2 3 5 6)
qed

section \<open>Properties of every run\<close>

lemma run_shape:
  "case result_of lib env w of
     Inr g \<Rightarrow> map label (trace_of lib env w) = script_labels \<and>
       list_all succeeded (trace_of lib env w)
   | Inl e \<Rightarrow> trace_of lib env w \<noteq> [] \<and>
       prefix (map label (trace_of lib env w)) script_labels \<and>
       list_all succeeded (butlast (trace_of lib env w)) \<and>
       outcome_of (last (trace_of lib env w)) = Inl e"
proof -
  let ?s = "\<lparr>environ = env, extern = w, trace = []\<rparr>"
  from emits_notebook [of lib] obtain evs
    where "trace (snd (notebook lib ?s)) = trace ?s @ evs"
      and "case fst (notebook lib ?s) of
          Inr x \<Rightarrow> map label evs = script_labels \<and> list_all succeeded evs
        | Inl e \<Rightarrow> evs \<noteq> [] \<and> prefix (map label evs) script_labels \<and>
            list_all succeeded (butlast evs) \<and> outcome_of (last evs) = Inl e"
    unfolding emits_def by blast
  then show ?thesis
    unfolding result_of_def trace_of_def run_def by (auto split: sum.splits)
qed

lemma each_ret: "each I (ret x)"
  by (simp add: each_def ret_def)

lemma each_perform: "(\<And>r. I (Ev c r)) \<Longrightarrow> each I (perform lib c)"
  by (auto simp: each_def perform_def split: prod.splits)

lemma each_setitem: "I (EnvSet k v) \<Longrightarrow> each I (environ_setitem k v)"
  by (simp add: each_def environ_setitem_def)

lemma each_getitem: "(\<And>r. I (EnvGet k r)) \<Longrightarrow> each I (environ_getitem k)"
  by (simp add: each_def environ_getitem_def Let_def)

lemma each_seq: "each I m \<Longrightarrow> (\<And>x. each I (f x)) \<Longrightarrow> each I (seq m f)"
  by (auto simp: each_def seq_def split: prod.splits sum.splits)

lemma each_case_prod: "(\<And>a b. each I (f a b)) \<Longrightarrow> each I (case_prod f x)"
  by (cases x) simp

lemmas each_rules = each_seq each_ret each_perform each_setitem each_getitem each_case_prod

lemma each_pinned: "each pinned (notebook lib)"
  unfolding notebook_def cell1_def cell2_def cell3_def cell5_def cell6_def cell7_def
    cell8_def cell9_def cell10_def cell11_def wrappers
  by (intro each_rules; simp add: pinned_def labelled_def sets_output_dir_def)

lemma run_pinned: "list_all pinned (trace_of lib env w)"
  using each_pinned [of lib] by (simp add: each_def trace_of_def run_def)

lemma filter_prefix_length:
  "prefix xs ys \<Longrightarrow> length (filter P xs) \<le> length (filter P ys)"
  by (auto simp: prefix_def)

lemma count_bound:
  "length (filter (labelled ls) (trace_of lib env w))
     \<le> length (filter (\<lambda>l. l \<in> set ls) script_labels)"
proof -
  have "prefix (map label (trace_of lib env w)) script_labels"
    using run_shape [of lib env w] by (cases "result_of lib env w") simp_all
  then have "length (filter (\<lambda>l. l \<in> set ls) (map label (trace_of lib env w)))
      \<le> length (filter (\<lambda>l. l \<in> set ls) script_labels)"
    by (rule filter_prefix_length)
  moreover have "filter (\<lambda>l. l \<in> set ls) (map label (trace_of lib env w))
      = map label (filter (labelled ls) (trace_of lib env w))"
    by (simp add: filter_map comp_def labelled_def [abs_def])
  ultimately show ?thesis by simp
qed

lemma precedes_prefix: "precedes A B ys \<Longrightarrow> prefix xs ys \<Longrightarrow> precedes A B xs"
proof (induction xs arbitrary: ys)
  case Nil
  then show ?case by simp
next
  case (Cons x xs)
  then obtain zs where "ys = x # zs" and "prefix xs zs"
    by (cases ys) auto
  with Cons show ?case by (auto split: if_splits)
qed

lemma precedes_map: "precedes A B (map f xs) = precedes (A \<circ> f) (B \<circ> f) xs"
  by (induction xs) simp_all

lemma precedes_mono:
  "precedes A B xs \<Longrightarrow> \<forall>x \<in> set xs. A x \<longrightarrow> A' x \<Longrightarrow> precedes A' B xs"
  by (induction xs) (auto split: if_splits)

lemma labels_precede:
  assumes "precedes (\<lambda>l. l \<in> set as) (\<lambda>l. l \<in> set bs) script_labels"
  shows "precedes (labelled as) (labelled bs) (trace_of lib env w)"
proof -
  have "prefix (map label (trace_of lib env w)) script_labels"
    using run_shape [of lib env w] by (cases "result_of lib env w") simp_all
  with assms have "precedes (\<lambda>l. l \<in> set as) (\<lambda>l. l \<in> set bs) (map label (trace_of lib env w))"
    by (rule precedes_prefix)
  then show ?thesis
    by (simp add: precedes_map comp_def labelled_def [abs_def])
qed

lemmas label_defs = script_labels_def prologue_def step1_def paths_def step2_def step3_def
  shapes_def step4_def step5_def step6_def step7_def library_work_def reads_and_computes_def

lemma seed_first: "precedes seeds_1234 (labelled library_work) (trace_of lib env w)"
proof -
  have "precedes (labelled [''np.random.seed'']) (labelled library_work) (trace_of lib env w)"
    by (rule labels_precede) (simp add: label_defs)
  moreover have "\<forall>ev \<in> set (trace_of lib env w). labelled [''np.random.seed''] ev \<longrightarrow> seeds_1234 ev"
    using run_pinned [of lib env w] by (auto simp: list_all_iff pinned_def)
  ultimately show ?thesis by (rule precedes_mono)
qed

text \<open>
  C8: the script has no exception handling, retry or recovery. Whenever an operation of a
  run raises an exception \<open>e\<close> (a library call, or the read of the environment
  variable), the run itself ends with exactly \<open>e\<close> and that operation is the last
  event of the trace, so no later step is executed and nothing is tried again.
  Conversely a run that ends with an exception \<open>e\<close> got it from its last operation:
  the script raises nothing of its own.
\<close>

theorem failure_ends_the_run:
  "(\<forall>i e. i < length (trace_of lib env w) \<and> outcome_of (trace_of lib env w ! i) = Inl e
      \<longrightarrow> result_of lib env w = Inl e \<and> Suc i = length (trace_of lib env w)) \<and>
   (\<forall>e. result_of lib env w = Inl e
      \<longrightarrow> trace_of lib env w \<noteq> [] \<and> outcome_of (last (trace_of lib env w)) = Inl e)"
proof (rule conjI; intro allI impI)
  fix i e
  assume a: "i < length (trace_of lib env w) \<and> outcome_of (trace_of lib env w ! i) = Inl e"
  let ?t = "trace_of lib env w"
  from a have fails: "\<not> succeeded (?t ! i)" by simp
  show "result_of lib env w = Inl e \<and> Suc i = length ?t"
  proof (cases "result_of lib env w")
    case (Inr g)
    with run_shape [of lib env w] have "list_all succeeded ?t" by simp
    with a have "succeeded (?t ! i)"
      by (auto simp: list_all_length simp del: succeeded.simps)
    with fails show ?thesis by simp
  next
    case (Inl e')
    with run_shape [of lib env w]
    have ne: "?t \<noteq> []" and ok: "list_all succeeded (butlast ?t)"
      and l: "outcome_of (last ?t) = Inl e'" by simp_all
    have "\<not> i < length (butlast ?t)"
    proof
      assume "i < length (butlast ?t)"
      with ok have "succeeded (butlast ?t ! i)"
        by (auto simp: list_all_length simp del: succeeded.simps)
      with \<open>i < length (butlast ?t)\<close> have "succeeded (?t ! i)"
        by (simp add: nth_butlast del: succeeded.simps)
      with fails show False by simp
    qed
    with a have i: "Suc i = length ?t" by auto
    with ne have "last ?t = ?t ! i" by (metis diff_Suc_1 last_conv_nth)
    with l a have "e' = e" by simp
    with Inl i show ?thesis by simp
  qed
next
  fix e
  assume "result_of lib env w = Inl e"
  with run_shape [of lib env w] 
  show "trace_of lib env w \<noteq> [] \<and> outcome_of (last (trace_of lib env w)) = Inl e"
    by simp
qed

theorem failure_ends_the_run_witness:
  "result_of (failing_lib 20) Map.empty 0 = Inl (PyExn ''OSError'' (PyStr ''no such file'')) \<and>
   trace_of (failing_lib 20) Map.empty 0 \<noteq> [] \<and>
   outcome_of (last (trace_of (failing_lib 20) Map.empty 0)) =
     Inl (PyExn ''OSError'' (PyStr ''no such file''))"
  using failure_ends_the_run [of "failing_lib 20" Map.empty 0] failing_result by simp

lemma complete_run:
  assumes "result_of lib env w = Inr g"
  obtains s where "run lib env w = (Inr g, s)" and "trace_of lib env w = trace s"
  using assms by (cases "run lib env w") (simp add: result_of_def trace_of_def)

text \<open>
  C9: the script is a straight line. Whatever the libraries answer, the operations of a
  run are an initial part of the one fixed sequence \<open>script_labels\<close> (the imports and
  the seed, then steps 1 to 7 in order), and a run that completes performs exactly that
  sequence; in it each of the two loaders is called first for the training regions
  (step 2) and then for the test regions (step 3).
\<close>

theorem fixed_order:
  "prefix (map label (trace_of lib env w)) script_labels \<and>
   (result_of lib env w = Inr g \<longrightarrow>
      map label (trace_of lib env w) = script_labels \<and>
      map (\<lambda>c. map_of (call_kwargs c) ''roi'')
          (calls_labelled ''Bioseq.create_from_refgenome'' (trace_of lib env w)) =
        [Some (ROI_TRAIN_FILE_of g), Some (ROI_TEST_FILE_of g)] \<and>
      map (\<lambda>c. map_of (call_kwargs c) ''roi'')
          (calls_labelled ''Cover.create_from_bed'' (trace_of lib env w)) =
        [Some (ROI_TRAIN_FILE_of g), Some (ROI_TEST_FILE_of g)])"
proof (intro conjI impI)
  show "prefix (map label (trace_of lib env w)) script_labels"
    using run_shape [of lib env w] by (cases "result_of lib env w") simp_all
next
  assume "result_of lib env w = Inr g"
  then show "map label (trace_of lib env w) = script_labels"
    using run_shape [of lib env w] by simp
next
  assume "result_of lib env w = Inr g"
  then obtain s where run: "run lib env w = (Inr g, s)" and t: "trace_of lib env w = trace s"
    by (rule complete_run)
  show "map (\<lambda>c. map_of (call_kwargs c) ''roi'')
          (calls_labelled ''Bioseq.create_from_refgenome'' (trace_of lib env w)) =
        [Some (ROI_TRAIN_FILE_of g), Some (ROI_TEST_FILE_of g)]"
    using notebook_complete [OF run] unfolding t
    by (elim exE conjE) (simp add: calls_labelled_def labelled_def)
  show "map (\<lambda>c. map_of (call_kwargs c) ''roi'')
          (calls_labelled ''Cover.create_from_bed'' (trace_of lib env w)) =
        [Some (ROI_TRAIN_FILE_of g), Some (ROI_TEST_FILE_of g)]"
    using notebook_complete [OF run] unfolding t
    by (elim exE conjE) (simp add: calls_labelled_def labelled_def)
qed

theorem fixed_order_witness:
  "result_of demo_lib Map.empty 0 = Inr demo_ns \<and>
   prefix (map label (trace_of demo_lib Map.empty 0)) script_labels \<and>
   map label (trace_of demo_lib Map.empty 0) = script_labels \<and>
   map (\<lambda>c. map_of (call_kwargs c) ''roi'')
       (calls_labelled ''Bioseq.create_from_refgenome'' (trace_of demo_lib Map.empty 0)) =
     [Some (PyObj 17), Some (PyObj 18)]"
  using fixed_order [of demo_lib Map.empty 0 demo_ns] demo_result by (simp add: demo_ns_def)

section \<open>Properties of complete runs\<close>

text \<open>
  C5: the model is fitted by a single call. No run calls \<^verbatim>\<open>fit\<close> more than once, and a
  run that completes calls it exactly once, as \<^verbatim>\<open>model.fit(DNA, LABELS, epochs=100)\<close>:
  on the model of cell 8, with the whole training sequence dataset (what
  \<^verbatim>\<open>Bioseq.create_from_refgenome\<close> returned for the training regions) and the whole
  training label dataset (the \<^verbatim>\<open>ReduceDim\<close> of what \<^verbatim>\<open>Cover.create_from_bed\<close> returned for
  the training regions) as its two positional arguments, and 100 epochs.
\<close>

theorem single_fit:
  "length (filter (labelled [''.fit()'']) (trace_of lib env w)) \<le> 1 \<and>
   (result_of lib env w = Inr g \<longrightarrow>
      filter (labelled [''.fit()'']) (trace_of lib env w) =
        [Ev (Call (Meth (model_of g) ''fit'') [DNA_of g, LABELS_of g] [(''epochs'', PyInt 100)])
           (Inr (hist_of g))] \<and>
      Ev (Call (Fn ''Bioseq.create_from_refgenome'') [PyStr ''dna'']
            [(''refgenome'', REFGENOME_of g), (''roi'', ROI_TRAIN_FILE_of g),
             (''binsize'', PyInt 200), (''order'', PyInt 3), (''cache'', PyBool True)])
         (Inr (DNA_of g)) \<in> set (trace_of lib env w) \<and>
      (\<exists>cover.
         Ev (Call (Fn ''Cover.create_from_bed'') [PyStr ''peaks'']
               [(''roi'', ROI_TRAIN_FILE_of g), (''bedfiles'', PEAK_FILE_of g),
                (''binsize'', PyInt 200), (''resolution'', PyInt 200),
                (''cache'', PyBool True), (''storage'', PyStr ''sparse'')])
            (Inr cover) \<in> set (trace_of lib env w) \<and>
         Ev (Call (Fn ''ReduceDim'') [cover] []) (Inr (LABELS_of g))
           \<in> set (trace_of lib env w)))"
proof (rule conjI; (rule impI)?)
  show "length (filter (labelled [''.fit()'']) (trace_of lib env w)) \<le> 1"
    using count_bound [of "[''.fit()'']" lib env w] by (simp add: label_defs)
next
  assume "result_of lib env w = Inr g"
  then obtain s where run: "run lib env w = (Inr g, s)" and t: "trace_of lib env w = trace s"
    by (rule complete_run)
  show "filter (labelled [''.fit()'']) (trace_of lib env w) =
        [Ev (Call (Meth (model_of g) ''fit'') [DNA_of g, LABELS_of g] [(''epochs'', PyInt 100)])
           (Inr (hist_of g))] \<and>
      Ev (Call (Fn ''Bioseq.create_from_refgenome'') [PyStr ''dna'']
            [(''refgenome'', REFGENOME_of g), (''roi'', ROI_TRAIN_FILE_of g),
             (''binsize'', PyInt 200), (''order'', PyInt 3), (''cache'', PyBool True)])
         (Inr (DNA_of g)) \<in> set (trace_of lib env w) \<and>
      (\<exists>cover.
         Ev (Call (Fn ''Cover.create_from_bed'') [PyStr ''peaks'']
               [(''roi'', ROI_TRAIN_FILE_of g), (''bedfiles'', PEAK_FILE_of g),
                (''binsize'', PyInt 200), (''resolution'', PyInt 200),
                (''cache'', PyBool True), (''storage'', PyStr ''sparse'')])
            (Inr cover) \<in> set (trace_of lib env w) \<and>
         Ev (Call (Fn ''ReduceDim'') [cover] []) (Inr (LABELS_of g))
           \<in> set (trace_of lib env w))"
    using notebook_complete [OF run] unfolding t
    by (elim exE conjE) (simp add: labelled_def)
qed

theorem single_fit_witness:
  "result_of demo_lib Map.empty 0 = Inr demo_ns \<and>
   length (filter (labelled [''.fit()'']) (trace_of demo_lib Map.empty 0)) \<le> 1 \<and>
   filter (labelled [''.fit()'']) (trace_of demo_lib Map.empty 0) =
     [Ev (Call (Meth (PyObj 40) ''fit'') [PyObj 20, PyObj 22] [(''epochs'', PyInt 100)])
        (Inr (PyObj 43))]"
  using single_fit [of demo_lib Map.empty 0 demo_ns] demo_result by (simp add: demo_ns_def)

lemma count_bound_pred:
  "length (filter (\<lambda>ev. P (label ev)) (trace_of lib env w)) \<le> length (filter P script_labels)"
proof -
  have "prefix (map label (trace_of lib env w)) script_labels"
    using run_shape [of lib env w] by (cases "result_of lib env w") simp_all
  then have "length (filter P (map label (trace_of lib env w))) \<le> length (filter P script_labels)"
    by (rule filter_prefix_length)
  then show ?thesis
    by (simp add: filter_map comp_def)
qed

text \<open>
  C10: the random seed is fixed first. In every run the call \<^verbatim>\<open>np.random.seed(1234)\<close>
  comes before any operation that loads data or builds, fits or uses the model. The
  script has no source of variation of its own: two runs that complete perform the same
  operations in the same order, and when the libraries gave them the same answers, the
  two runs made the same calls with the same arguments and bound the same values. What
  differs between two runs comes from the libraries.
\<close>

theorem seeded_and_determined:
  "precedes seeds_1234 (labelled library_work) (trace_of lib env w) \<and>
   (result_of lib env w = Inr g \<and> result_of lib' env' w' = Inr g' \<longrightarrow>
      map label (trace_of lib env w) = map label (trace_of lib' env' w') \<and>
      (map outcome_of (trace_of lib env w) = map outcome_of (trace_of lib' env' w') \<longrightarrow>
         trace_of lib env w = trace_of lib' env' w' \<and> g = g'))"
proof (rule conjI; (rule impI)?)
  show "precedes seeds_1234 (labelled library_work) (trace_of lib env w)"
    by (rule seed_first)
next
  assume a: "result_of lib env w = Inr g \<and> result_of lib' env' w' = Inr g'"
  then obtain s where run: "run lib env w = (Inr g, s)" and t: "trace_of lib env w = trace s"
    by (blast elim: complete_run)
  from a obtain s' where run': "run lib' env' w' = (Inr g', s')"
    and t': "trace_of lib' env' w' = trace s'"
    by (blast elim: complete_run)
  have labels: "map label (trace_of lib env w) = map label (trace_of lib' env' w')"
    using a run_shape [of lib env w] run_shape [of lib' env' w'] by simp
  have "map outcome_of (trace s) = map outcome_of (trace s') \<longrightarrow> trace s = trace s' \<and> g = g'"
    using notebook_complete [OF run] notebook_complete [OF run']
    by (elim exE conjE) simp
  with labels show "map label (trace_of lib env w) = map label (trace_of lib' env' w') \<and>
      (map outcome_of (trace_of lib env w) = map outcome_of (trace_of lib' env' w') \<longrightarrow>
         trace_of lib env w = trace_of lib' env' w' \<and> g = g')"
    by (simp add: t t')
qed

theorem seeded_and_determined_witness:
  "result_of demo_lib Map.empty 0 = Inr demo_ns \<and>
   precedes seeds_1234 (labelled library_work) (trace_of demo_lib Map.empty 0) \<and>
   map label (trace_of demo_lib Map.empty 0) = map label (trace_of demo_lib Map.empty 0) \<and>
   map outcome_of (trace_of demo_lib Map.empty 0) = map outcome_of (trace_of demo_lib Map.empty 0) \<and>
   trace_of demo_lib Map.empty 0 = trace_of demo_lib Map.empty 0"
  using seeded_and_determined [of demo_lib Map.empty 0 demo_ns demo_lib Map.empty 0 demo_ns]
    demo_result by simp

section \<open>The environment variable, assigned once and read once\<close>

lemma tracks_ret: "tracks d (has_dir d b) (ret x) (has_dir d b)"
  by (simp add: tracks_def ret_def)

lemma tracks_keeps:
  assumes "keeps_output_dir lib"
  shows "tracks d (has_dir d b) (perform lib c) (has_dir d b)"
  unfolding tracks_def
proof (intro allI impI)
  fix s :: "'a state"
  assume a: "has_dir d b s"
  obtain q env' w' where l: "lib c (environ s, extern s) = (q, env', w')"
    by (cases "lib c (environ s, extern s)")
  from assms have "fst (snd (lib c (environ s, extern s))) ''JANGGU_OUTPUT''
      = environ s ''JANGGU_OUTPUT''"
    unfolding keeps_output_dir_def by blast
  with l have "env' ''JANGGU_OUTPUT'' = environ s ''JANGGU_OUTPUT''"
    by simp
  with a l show "case fst (perform lib c s) of
         Inr x \<Rightarrow> has_dir d b (snd (perform lib c s))
       | Inl e \<Rightarrow> list_all (reads d) (trace (snd (perform lib c s)))"
    by (cases q) (simp_all add: perform_def has_dir_def)
qed

lemma tracks_moves:
  assumes "moves_output_dir lib d"
  shows "tracks d (has_dir d b) (perform lib c) (has_dir d True)"
  unfolding tracks_def
proof (intro allI impI)
  fix s :: "'a state"
  assume a: "has_dir d b s"
  obtain q env' w' where l: "lib c (environ s, extern s) = (q, env', w')"
    by (cases "lib c (environ s, extern s)")
  from assms have "fst (snd (lib c (environ s, extern s))) ''JANGGU_OUTPUT'' = Some d"
    unfolding moves_output_dir_def by blast
  with l have "env' ''JANGGU_OUTPUT'' = Some d"
    by simp
  with a l show "case fst (perform lib c s) of
         Inr x \<Rightarrow> has_dir d True (snd (perform lib c s))
       | Inl e \<Rightarrow> list_all (reads d) (trace (snd (perform lib c s)))"
    by (cases q) (simp_all add: perform_def has_dir_def)
qed

lemma tracks_assigned:
  "tracks d (has_dir d b) (environ_setitem ''JANGGU_OUTPUT'' d) (has_dir d True)"
  by (simp add: tracks_def environ_setitem_def has_dir_def)

lemma tracks_setitem:
  "tracks d (has_dir d b) (environ_setitem k v) (has_dir d False)"
  by (simp add: tracks_def environ_setitem_def has_dir_def)

lemma tracks_getitem:
  "tracks d (has_dir d True) (environ_getitem ''JANGGU_OUTPUT'') (has_dir d True)"
  by (simp add: tracks_def environ_getitem_def has_dir_def Let_def)

lemma tracks_seq:
  assumes "tracks d P m Q" and "\<And>x. tracks d Q (f x) R"
  shows "tracks d P (seq m f) R"
  unfolding tracks_def
proof (intro allI impI)
  fix s
  assume p: "P s"
  obtain q s1 where ms: "m s = (q, s1)" by (cases "m s")
  from assms(1) [unfolded tracks_def, rule_format, OF p]
  have m: "case fst (m s) of
           Inr x \<Rightarrow> Q (snd (m s))
         | Inl e \<Rightarrow> list_all (reads d) (trace (snd (m s)))" .
  show "case fst (seq m f s) of
           Inr x \<Rightarrow> R (snd (seq m f s))
         | Inl e \<Rightarrow> list_all (reads d) (trace (snd (seq m f s)))"
  proof (cases q)
    case (Inl e)
    with m ms show ?thesis by (simp add: seq_def)
  next
    case (Inr x)
    with m ms have "Q s1" by simp
    with assms(2) [of x, unfolded tracks_def, rule_format, of s1]
    have "case fst (f x s1) of
           Inr y \<Rightarrow> R (snd (f x s1))
         | Inl e \<Rightarrow> list_all (reads d) (trace (snd (f x s1)))"
      by simp
    moreover from Inr ms have "seq m f s = f x s1" by (simp add: seq_def)
    ultimately show ?thesis by (simp only:)
  qed
qed

lemma tracks_case_prod: "(\<And>a b. tracks d P (f a b) Q) \<Longrightarrow> tracks d P (case_prod f x) Q"
  by (cases x) simp

lemma tracks_kept:
  "keeps_output_dir lib \<Longrightarrow>
     tracks ''/home/wkopp/janggu_examples'' (has_dir ''/home/wkopp/janggu_examples'' False)
       (notebook lib) (has_dir ''/home/wkopp/janggu_examples'' True)"
  unfolding notebook_def cell1_def cell2_def cell3_def cell5_def cell6_def cell7_def
    cell8_def cell9_def cell10_def cell11_def wrappers
  by (rule tracks_seq tracks_ret tracks_keeps tracks_assigned tracks_getitem tracks_case_prod
      | assumption)+

lemma tracks_moved:
  "moves_output_dir lib d \<Longrightarrow> tracks d (has_dir d False) (notebook lib) (has_dir d True)"
  unfolding notebook_def cell1_def cell2_def cell3_def cell5_def cell6_def cell7_def
    cell8_def cell9_def cell10_def cell11_def wrappers
  by (rule tracks_seq tracks_ret tracks_moves tracks_setitem tracks_getitem tracks_case_prod
      | assumption)+

lemma reads_of_run:
  assumes "tracks d (has_dir d False) (notebook lib) (has_dir d True)"
  shows "list_all (reads d) (trace_of lib env w)"
proof -
  have init: "has_dir d False \<lparr>environ = env, extern = w, trace = []\<rparr>"
    by (simp add: has_dir_def)
  from assms [unfolded tracks_def, rule_format, OF init]
  show ?thesis
    by (cases "fst (notebook lib \<lparr>environ = env, extern = w, trace = []\<rparr>)")
      (simp_all add: trace_of_def run_def has_dir_def)
qed

lemma reads_kept:
  "keeps_output_dir lib \<Longrightarrow>
     list_all (reads ''/home/wkopp/janggu_examples'') (trace_of lib env w)"
  by (rule reads_of_run, rule tracks_kept)

lemma reads_moved: "moves_output_dir lib d \<Longrightarrow> list_all (reads d) (trace_of lib env w)"
  by (rule reads_of_run, rule tracks_moved)

lemma export_reads_environ:
  assumes "environ s ''JANGGU_OUTPUT'' = Some v"
  shows "trace (snd (export_to_bigwig lib c s)) = trace s @
     [EnvGet ''JANGGU_OUTPUT'' (Inr (PyStr v)),
      Ev (Call (Meth c ''export_to_bigwig'') [] [(''output_dir'', PyStr v)])
        (fst (export_to_bigwig lib c s))]"
proof -
  let ?s = "s\<lparr>trace := trace s @ [EnvGet ''JANGGU_OUTPUT'' (Inr (PyStr v))]\<rparr>"
  let ?c = "Call (Meth c ''export_to_bigwig'') [] [(''output_dir'', PyStr v)]"
  from assms have "export_to_bigwig lib c s = perform lib ?c ?s"
    by (simp add: export_to_bigwig_def invoke_def seq_def environ_getitem_def Let_def)
  then show ?thesis
    by (cases "lib ?c (environ s, extern s)") (simp add: perform_def)
qed

lemma export_unset:
  assumes "environ s ''JANGGU_OUTPUT'' = None"
  shows "export_to_bigwig lib c s =
     (Inl (PyExn ''KeyError'' (PyStr ''JANGGU_OUTPUT'')),
      s\<lparr>trace := trace s @
           [EnvGet ''JANGGU_OUTPUT'' (Inl (PyExn ''KeyError'' (PyStr ''JANGGU_OUTPUT'')))]\<rparr>)"
  using assms by (simp add: export_to_bigwig_def seq_def environ_getitem_def Let_def)

text \<open>
  C7: the output boundary of the script. In every run the assignment
  \<^verbatim>\<open>os.environ['JANGGU_OUTPUT'] = '/home/wkopp/janggu_examples'\<close> comes before any
  operation that loads data or builds, fits or uses the model, and it is the only
  assignment to the environment the script makes. All other operations but one
  construct, compute, read or write to the standard output; the one is the export of the
  track file. The export line reads the variable from the environment as it is when the
  line is reached: from a state where the variable has the value \<open>v\<close>, it reads \<open>v\<close> and
  calls \<^verbatim>\<open>export_to_bigwig\<close> with \<^verbatim>\<open>output_dir\<close> equal to \<open>v\<close>, whatever \<open>v\<close> is; from a
  state where the variable is not set, it raises \<^verbatim>\<open>KeyError\<close> and exports nothing. A run
  that completes exports once, with \<^verbatim>\<open>output_dir\<close> the value that the read of
  \<^verbatim>\<open>os.environ['JANGGU_OUTPUT']\<close> just before it returned. When the libraries keep that
  variable, the value is the directory assigned in cell 3; when they move it to \<open>d\<close>,
  the value is \<open>d\<close>.
\<close>

theorem output_boundary:
  "precedes sets_output_dir (labelled library_work) (trace_of lib env w) \<and>
   list_all (\<lambda>ev. labelled [''os.environ.__setitem__''] ev \<longrightarrow> sets_output_dir ev)
     (trace_of lib env w) \<and>
   length (filter (\<lambda>ev. label ev \<notin> set reads_and_computes) (trace_of lib env w)) \<le> 2 \<and>
   (\<forall>s c v. environ s ''JANGGU_OUTPUT'' = Some v \<longrightarrow>
      trace (snd (export_to_bigwig lib c s)) = trace s @
        [EnvGet ''JANGGU_OUTPUT'' (Inr (PyStr v)),
         Ev (Call (Meth c ''export_to_bigwig'') [] [(''output_dir'', PyStr v)])
           (fst (export_to_bigwig lib c s))]) \<and>
   (\<forall>s c. environ s ''JANGGU_OUTPUT'' = None \<longrightarrow>
      export_to_bigwig lib c s =
        (Inl (PyExn ''KeyError'' (PyStr ''JANGGU_OUTPUT'')),
         s\<lparr>trace := trace s @
              [EnvGet ''JANGGU_OUTPUT''
                 (Inl (PyExn ''KeyError'' (PyStr ''JANGGU_OUTPUT'')))]\<rparr>)) \<and>
   (keeps_output_dir lib \<longrightarrow>
      list_all (reads ''/home/wkopp/janggu_examples'') (trace_of lib env w)) \<and>
   (moves_output_dir lib d \<longrightarrow> list_all (reads d) (trace_of lib env w)) \<and>
   (result_of lib env w = Inr g \<longrightarrow>
      (\<exists>dir exported.
         filter (\<lambda>ev. label ev \<notin> set reads_and_computes \<or> labelled [''os.environ.__getitem__''] ev)
             (trace_of lib env w) =
           [EnvSet ''JANGGU_OUTPUT'' ''/home/wkopp/janggu_examples'',
            EnvGet ''JANGGU_OUTPUT'' (Inr (PyStr dir)),
            Ev (Call (Meth (cov_pred_of g) ''export_to_bigwig'') [] [(''output_dir'', PyStr dir)])
              (Inr exported)] \<and>
         (keeps_output_dir lib \<longrightarrow> dir = ''/home/wkopp/janggu_examples'') \<and>
         (moves_output_dir lib d \<longrightarrow> dir = d)))"
proof (intro conjI impI allI)
  have pin: "\<forall>ev \<in> set (trace_of lib env w). labelled [''os.environ.__setitem__''] ev \<longrightarrow> sets_output_dir ev"
    using run_pinned [of lib env w] by (auto simp: list_all_iff pinned_def)
  have "precedes (labelled [''os.environ.__setitem__'']) (labelled library_work) (trace_of lib env w)"
    by (rule labels_precede) (simp add: label_defs)
  then show "precedes sets_output_dir (labelled library_work) (trace_of lib env w)"
    using pin by (rule precedes_mono)
  from pin show "list_all (\<lambda>ev. labelled [''os.environ.__setitem__''] ev \<longrightarrow> sets_output_dir ev)
     (trace_of lib env w)"
    by (simp add: list_all_iff)
  show "length (filter (\<lambda>ev. label ev \<notin> set reads_and_computes) (trace_of lib env w)) \<le> 2"
    using count_bound_pred [of "\<lambda>l. l \<notin> set reads_and_computes" lib env w]
    by (simp add: label_defs)
next
  fix s :: "'a state" and c v
  assume "environ s ''JANGGU_OUTPUT'' = Some v"
  then show "trace (snd (export_to_bigwig lib c s)) = trace s @
        [EnvGet ''JANGGU_OUTPUT'' (Inr (PyStr v)),
         Ev (Call (Meth c ''export_to_bigwig'') [] [(''output_dir'', PyStr v)])
           (fst (export_to_bigwig lib c s))]"
    by (rule export_reads_environ)
next
  fix s :: "'a state" and c
  assume "environ s ''JANGGU_OUTPUT'' = None"
  then show "export_to_bigwig lib c s =
        (Inl (PyExn ''KeyError'' (PyStr ''JANGGU_OUTPUT'')),
         s\<lparr>trace := trace s @
              [EnvGet ''JANGGU_OUTPUT''
                 (Inl (PyExn ''KeyError'' (PyStr ''JANGGU_OUTPUT'')))]\<rparr>)"
    by (rule export_unset)
next
  assume "keeps_output_dir lib"
  then show "list_all (reads ''/home/wkopp/janggu_examples'') (trace_of lib env w)"
    by (rule reads_kept)
next
  assume "moves_output_dir lib d"
  then show "list_all (reads d) (trace_of lib env w)"
    by (rule reads_moved)
next
  assume "result_of lib env w = Inr g"
  then obtain s where run: "run lib env w = (Inr g, s)" and t: "trace_of lib env w = trace s"
    by (rule complete_run)
  have "keeps_output_dir lib \<longrightarrow> list_all (reads ''/home/wkopp/janggu_examples'') (trace s)"
    using reads_kept [of lib env w] by (simp add: t)
  moreover have "moves_output_dir lib d \<longrightarrow> list_all (reads d) (trace s)"
    using reads_moved [of lib d env w] by (simp add: t)
  ultimately show "\<exists>dir exported.
         filter (\<lambda>ev. label ev \<notin> set reads_and_computes \<or> labelled [''os.environ.__getitem__''] ev)
             (trace_of lib env w) =
           [EnvSet ''JANGGU_OUTPUT'' ''/home/wkopp/janggu_examples'',
            EnvGet ''JANGGU_OUTPUT'' (Inr (PyStr dir)),
            Ev (Call (Meth (cov_pred_of g) ''export_to_bigwig'') [] [(''output_dir'', PyStr dir)])
              (Inr exported)] \<and>
         (keeps_output_dir lib \<longrightarrow> dir = ''/home/wkopp/janggu_examples'') \<and>
         (moves_output_dir lib d \<longrightarrow> dir = d)"
    using notebook_complete [OF run] unfolding t
    by (elim exE conjE) (simp add: labelled_def label_defs)
qed

theorem output_boundary_witness:
  "result_of demo_lib Map.empty 0 = Inr demo_ns \<and> keeps_output_dir demo_lib \<and>
   result_of moving_lib Map.empty 0 = Inr demo_ns \<and>
   moves_output_dir moving_lib ''/tmp/elsewhere'' \<and>
   precedes sets_output_dir (labelled library_work) (trace_of demo_lib Map.empty 0) \<and>
   length (filter (\<lambda>ev. label ev \<notin> set reads_and_computes) (trace_of demo_lib Map.empty 0)) \<le> 2 \<and>
   list_all (reads ''/home/wkopp/janggu_examples'') (trace_of demo_lib Map.empty 0) \<and>
   list_all (reads ''/tmp/elsewhere'') (trace_of moving_lib Map.empty 0) \<and>
   (\<exists>exported.
      filter (\<lambda>ev. label ev \<notin> set reads_and_computes \<or> labelled [''os.environ.__getitem__''] ev)
          (trace_of demo_lib Map.empty 0) =
        [EnvSet ''JANGGU_OUTPUT'' ''/home/wkopp/janggu_examples'',
         EnvGet ''JANGGU_OUTPUT'' (Inr (PyStr ''/home/wkopp/janggu_examples'')),
         Ev (Call (Meth (PyObj 56) ''export_to_bigwig'') []
               [(''output_dir'', PyStr ''/home/wkopp/janggu_examples'')])
           (Inr exported)]) \<and>
   (\<exists>exported.
      filter (\<lambda>ev. label ev \<notin> set reads_and_computes \<or> labelled [''os.environ.__getitem__''] ev)
          (trace_of moving_lib Map.empty 0) =
        [EnvSet ''JANGGU_OUTPUT'' ''/home/wkopp/janggu_examples'',
         EnvGet ''JANGGU_OUTPUT'' (Inr (PyStr ''/tmp/elsewhere'')),
         Ev (Call (Meth (PyObj 56) ''export_to_bigwig'') []
               [(''output_dir'', PyStr ''/tmp/elsewhere'')])
           (Inr exported)]) \<and>
   trace (snd (export_to_bigwig demo_lib (PyObj 56)
       \<lparr>environ = [''JANGGU_OUTPUT'' \<mapsto> ''/data/tracks''], extern = 7, trace = []\<rparr>)) =
     [EnvGet ''JANGGU_OUTPUT'' (Inr (PyStr ''/data/tracks'')),
      Ev (Call (Meth (PyObj 56) ''export_to_bigwig'') [] [(''output_dir'', PyStr ''/data/tracks'')])
        (Inr (PyObj 7))] \<and>
   fst (export_to_bigwig demo_lib (PyObj 56) \<lparr>environ = Map.empty, extern = 7, trace = []\<rparr>)
     = Inl (PyExn ''KeyError'' (PyStr ''JANGGU_OUTPUT''))"
proof -
  let ?set = "\<lparr>environ = [''JANGGU_OUTPUT'' \<mapsto> ''/data/tracks''], extern = 7 :: nat,
    trace = []\<rparr>"
  let ?unset = "\<lparr>environ = Map.empty :: string \<rightharpoonup> string, extern = 7 :: nat, trace = []\<rparr>"
  have k: "keeps_output_dir demo_lib"
    by (simp add: keeps_output_dir_def demo_lib_def)
  have m: "moves_output_dir moving_lib ''/tmp/elsewhere''"
    by (simp add: moves_output_dir_def moving_lib_def)
  have r: "fst (export_to_bigwig demo_lib (PyObj 56) ?set) = Inr (PyObj 7)"
    by (simp add: eval_defs demo_lib_def)
  note a = output_boundary [of demo_lib Map.empty 0 "''/home/wkopp/janggu_examples''" demo_ns]
  note b = output_boundary [of moving_lib Map.empty 0 "''/tmp/elsewhere''" demo_ns]
  note a1 = a [THEN conjunct1]
  note a3 = a [THEN conjunct2, THEN conjunct2, THEN conjunct1]
  note a4 = a [THEN conjunct2, THEN conjunct2, THEN conjunct2, THEN conjunct1, rule_format]
  note a5 = a [THEN conjunct2, THEN conjunct2, THEN conjunct2, THEN conjunct2, THEN conjunct1,
    rule_format]
  note a6 = a [THEN conjunct2, THEN conjunct2, THEN conjunct2, THEN conjunct2, THEN conjunct2,
    THEN conjunct1, rule_format, OF k]
  note a8 = a [THEN conjunct2, THEN conjunct2, THEN conjunct2, THEN conjunct2, THEN conjunct2,
    THEN conjunct2, THEN conjunct2, rule_format, OF demo_result]
  note b7 = b [THEN conjunct2, THEN conjunct2, THEN conjunct2, THEN conjunct2, THEN conjunct2,
    THEN conjunct2, THEN conjunct1, rule_format, OF m]
  note b8 = b [THEN conjunct2, THEN conjunct2, THEN conjunct2, THEN conjunct2, THEN conjunct2,
    THEN conjunct2, THEN conjunct2, rule_format, OF moving_result]
  have line: "trace (snd (export_to_bigwig demo_lib (PyObj 56) ?set)) =
      [EnvGet ''JANGGU_OUTPUT'' (Inr (PyStr ''/data/tracks'')),
       Ev (Call (Meth (PyObj 56) ''export_to_bigwig'') [] [(''output_dir'', PyStr ''/data/tracks'')])
         (Inr (PyObj 7))]"
    using a4 [of ?set "''/data/tracks''" "PyObj 56"] r by simp
  have unset: "fst (export_to_bigwig demo_lib (PyObj 56) ?unset)
      = Inl (PyExn ''KeyError'' (PyStr ''JANGGU_OUTPUT''))"
    using a5 [of ?unset "PyObj 56"] by simp
  from a8 k have kept: "\<exists>exported.
      filter (\<lambda>ev. label ev \<notin> set reads_and_computes \<or> labelled [''os.environ.__getitem__''] ev)
          (trace_of demo_lib Map.empty 0) =
        [EnvSet ''JANGGU_OUTPUT'' ''/home/wkopp/janggu_examples'',
         EnvGet ''JANGGU_OUTPUT'' (Inr (PyStr ''/home/wkopp/janggu_examples'')),
         Ev (Call (Meth (PyObj 56) ''export_to_bigwig'') []
               [(''output_dir'', PyStr ''/home/wkopp/janggu_examples'')])
           (Inr exported)]"
    by (auto simp: demo_ns_def)
  from b8 m have moved: "\<exists>exported.
      filter (\<lambda>ev. label ev \<notin> set reads_and_computes \<or> labelled [''os.environ.__getitem__''] ev)
          (trace_of moving_lib Map.empty 0) =
        [EnvSet ''JANGGU_OUTPUT'' ''/home/wkopp/janggu_examples'',
         EnvGet ''JANGGU_OUTPUT'' (Inr (PyStr ''/tmp/elsewhere'')),
         Ev (Call (Meth (PyObj 56) ''export_to_bigwig'') []
               [(''output_dir'', PyStr ''/tmp/elsewhere'')])
           (Inr exported)]"
    by (auto simp: demo_ns_def)
  show ?thesis
    using k m demo_result moving_result a1 a3 a6 b7 kept moved line unset
    by (intro conjI)

qed

text \<open>
  C2: predict, wrap, export. In every run nothing of step 6 happens before the fit, and
  \<^verbatim>\<open>predict\<close> is called at most once. A run that completes calls, after the fit and
  in this order, \<^verbatim>\<open>model.predict(DNA_TEST)\<close> once, reads \<^verbatim>\<open>LABELS_TEST.gindexer\<close>, wraps
  the prediction with \<^verbatim>\<open>Cover.create_from_array('BindingProba', pred, gindexer)\<close> and
  writes the result with \<^verbatim>\<open>export_to_bigwig\<close>.
\<close>

theorem predict_wrap_export:
  "precedes (labelled [''.fit()'']) (labelled step6) (trace_of lib env w) \<and>
   length (filter (labelled [''.predict()'']) (trace_of lib env w)) \<le> 1 \<and>
   (result_of lib env w = Inr g \<longrightarrow>
      (\<exists>gindexer dir exported.
         filter (labelled (''.fit()'' # step6)) (trace_of lib env w) =
           [Ev (Call (Meth (model_of g) ''fit'') [DNA_of g, LABELS_of g]
                  [(''epochs'', PyInt 100)]) (Inr (hist_of g)),
            Ev (Call (Meth (model_of g) ''predict'') [DNA_TEST_of g] []) (Inr (pred_of g)),
            Ev (Call (Attr (LABELS_TEST_of g) ''gindexer'') [] []) (Inr gindexer),
            Ev (Call (Fn ''Cover.create_from_array'')
                  [PyStr ''BindingProba'', pred_of g, gindexer] []) (Inr (cov_pred_of g)),
            EnvGet ''JANGGU_OUTPUT'' (Inr dir),
            Ev (Call (Meth (cov_pred_of g) ''export_to_bigwig'') [] [(''output_dir'', dir)])
              (Inr exported)]))"
proof (intro conjI impI)
  show "precedes (labelled [''.fit()'']) (labelled step6) (trace_of lib env w)"
    by (rule labels_precede) (simp add: label_defs)
  show "length (filter (labelled [''.predict()'']) (trace_of lib env w)) \<le> 1"
    using count_bound [of "[''.predict()'']" lib env w] by (simp add: label_defs)
next
  assume "result_of lib env w = Inr g"
  then obtain s where run: "run lib env w = (Inr g, s)" and t: "trace_of lib env w = trace s"
    by (rule complete_run)
  show "\<exists>gindexer dir exported.
         filter (labelled (''.fit()'' # step6)) (trace_of lib env w) =
           [Ev (Call (Meth (model_of g) ''fit'') [DNA_of g, LABELS_of g]
                  [(''epochs'', PyInt 100)]) (Inr (hist_of g)),
            Ev (Call (Meth (model_of g) ''predict'') [DNA_TEST_of g] []) (Inr (pred_of g)),
            Ev (Call (Attr (LABELS_TEST_of g) ''gindexer'') [] []) (Inr gindexer),
            Ev (Call (Fn ''Cover.create_from_array'')
                  [PyStr ''BindingProba'', pred_of g, gindexer] []) (Inr (cov_pred_of g)),
            EnvGet ''JANGGU_OUTPUT'' (Inr dir),
            Ev (Call (Meth (cov_pred_of g) ''export_to_bigwig'') [] [(''output_dir'', dir)])
              (Inr exported)]"
    using notebook_complete [OF run] unfolding t
    by (elim exE conjE) (simp add: labelled_def label_defs)
qed

theorem predict_wrap_export_witness:
  "result_of demo_lib Map.empty 0 = Inr demo_ns \<and>
   precedes (labelled [''.fit()'']) (labelled step6) (trace_of demo_lib Map.empty 0) \<and>
   length (filter (labelled [''.predict()'']) (trace_of demo_lib Map.empty 0)) \<le> 1 \<and>
   (\<exists>gindexer dir exported.
      filter (labelled (''.fit()'' # step6)) (trace_of demo_lib Map.empty 0) =
        [Ev (Call (Meth (PyObj 40) ''fit'') [PyObj 20, PyObj 22]
               [(''epochs'', PyInt 100)]) (Inr (PyObj 43)),
         Ev (Call (Meth (PyObj 40) ''predict'') [PyObj 23] []) (Inr (PyObj 54)),
         Ev (Call (Attr (PyObj 25) ''gindexer'') [] []) (Inr gindexer),
         Ev (Call (Fn ''Cover.create_from_array'')
               [PyStr ''BindingProba'', PyObj 54, gindexer] []) (Inr (PyObj 56)),
         EnvGet ''JANGGU_OUTPUT'' (Inr dir),
         Ev (Call (Meth (PyObj 56) ''export_to_bigwig'') [] [(''output_dir'', dir)])
           (Inr exported)])"
  using predict_wrap_export [of demo_lib Map.empty 0 demo_ns] demo_result
  by (simp add: demo_ns_def)

text \<open>
  C6: the score is computed on the exported predictions. In a run that completes,
  everything from the call of \<^verbatim>\<open>predict\<close> on is listed below: the value \<^verbatim>\<open>pred\<close> that
  \<^verbatim>\<open>predict\<close> returned is the one wrapped and exported, the only operation between the
  export and the score is the read \<^verbatim>\<open>LABELS_TEST[:]\<close>, and the score is
  \<^verbatim>\<open>roc_auc_score(LABELS_TEST[:], pred)\<close> on that same value. There is no second call of
  \<^verbatim>\<open>predict\<close> and no operation of the script on \<^verbatim>\<open>pred\<close> in between.
\<close>

theorem auc_on_exported_predictions:
  "length (filter (labelled [''roc_auc_score'']) (trace_of lib env w)) \<le> 1 \<and>
   (result_of lib env w = Inr g \<longrightarrow>
      (\<exists>gindexer dir exported labels auc printed.
         dropWhile (\<lambda>ev. \<not> labelled [''.predict()''] ev) (trace_of lib env w) =
           [Ev (Call (Meth (model_of g) ''predict'') [DNA_TEST_of g] []) (Inr (pred_of g)),
            Ev (Call (Attr (LABELS_TEST_of g) ''gindexer'') [] []) (Inr gindexer),
            Ev (Call (Fn ''Cover.create_from_array'')
                  [PyStr ''BindingProba'', pred_of g, gindexer] []) (Inr (cov_pred_of g)),
            EnvGet ''JANGGU_OUTPUT'' (Inr dir),
            Ev (Call (Meth (cov_pred_of g) ''export_to_bigwig'') [] [(''output_dir'', dir)])
              (Inr exported),
            Ev (Call (Meth (LABELS_TEST_of g) ''__getitem__'') [PySlice PyNone PyNone PyNone] [])
              (Inr labels),
            Ev (Call (Fn ''roc_auc_score'') [labels, pred_of g] []) (Inr auc),
            Ev (Call (Fn ''print'') [PyStr ''AUC:'', auc] []) (Inr printed)]))"
proof (intro conjI impI)
  show "length (filter (labelled [''roc_auc_score'']) (trace_of lib env w)) \<le> 1"
    using count_bound [of "[''roc_auc_score'']" lib env w] by (simp add: label_defs)
next
  assume "result_of lib env w = Inr g"
  then obtain s where run: "run lib env w = (Inr g, s)" and t: "trace_of lib env w = trace s"
    by (rule complete_run)
  show "\<exists>gindexer dir exported labels auc printed.
         dropWhile (\<lambda>ev. \<not> labelled [''.predict()''] ev) (trace_of lib env w) =
           [Ev (Call (Meth (model_of g) ''predict'') [DNA_TEST_of g] []) (Inr (pred_of g)),
            Ev (Call (Attr (LABELS_TEST_of g) ''gindexer'') [] []) (Inr gindexer),
            Ev (Call (Fn ''Cover.create_from_array'')
                  [PyStr ''BindingProba'', pred_of g, gindexer] []) (Inr (cov_pred_of g)),
            EnvGet ''JANGGU_OUTPUT'' (Inr dir),
            Ev (Call (Meth (cov_pred_of g) ''export_to_bigwig'') [] [(''output_dir'', dir)])
              (Inr exported),
            Ev (Call (Meth (LABELS_TEST_of g) ''__getitem__'') [PySlice PyNone PyNone PyNone] [])
              (Inr labels),
            Ev (Call (Fn ''roc_auc_score'') [labels, pred_of g] []) (Inr auc),
            Ev (Call (Fn ''print'') [PyStr ''AUC:'', auc] []) (Inr printed)]"
    using notebook_complete [OF run] unfolding t
    by (elim exE conjE) (simp add: labelled_def)
qed

theorem auc_on_exported_predictions_witness:
  "result_of demo_lib Map.empty 0 = Inr demo_ns \<and>
   length (filter (labelled [''roc_auc_score'']) (trace_of demo_lib Map.empty 0)) \<le> 1 \<and>
   (\<exists>gindexer dir exported labels auc printed.
      dropWhile (\<lambda>ev. \<not> labelled [''.predict()''] ev) (trace_of demo_lib Map.empty 0) =
        [Ev (Call (Meth (PyObj 40) ''predict'') [PyObj 23] []) (Inr (PyObj 54)),
         Ev (Call (Attr (PyObj 25) ''gindexer'') [] []) (Inr gindexer),
         Ev (Call (Fn ''Cover.create_from_array'')
               [PyStr ''BindingProba'', PyObj 54, gindexer] []) (Inr (PyObj 56)),
         EnvGet ''JANGGU_OUTPUT'' (Inr dir),
         Ev (Call (Meth (PyObj 56) ''export_to_bigwig'') [] [(''output_dir'', dir)])
           (Inr exported),
         Ev (Call (Meth (PyObj 25) ''__getitem__'') [PySlice PyNone PyNone PyNone] [])
           (Inr labels),
         Ev (Call (Fn ''roc_auc_score'') [labels, PyObj 54] []) (Inr auc),
         Ev (Call (Fn ''print'') [PyStr ''AUC:'', auc] []) (Inr printed)])"
  using auc_on_exported_predictions [of demo_lib Map.empty 0 demo_ns] demo_result
  by (simp add: demo_ns_def)











text \<open>
  C3: the training data. In a run that completes, the first three loading operations
  are \<^verbatim>\<open>Bioseq.create_from_refgenome('dna', ...)\<close> with the reference genome, the training
  regions, \<open>binsize = 200\<close>, \<open>order = 3\<close> and \<open>cache = True\<close>, which gives \<^verbatim>\<open>DNA\<close>; then
  \<^verbatim>\<open>Cover.create_from_bed('peaks', ...)\<close> with the training regions, the peak file,
  \<open>binsize = 200\<close>, \<open>resolution = 200\<close>, \<open>cache = True\<close> and \<open>storage = 'sparse'\<close>; then
  \<^verbatim>\<open>ReduceDim\<close> of that cover, which gives \<^verbatim>\<open>LABELS\<close>. The three files are the ones
  \<^verbatim>\<open>resource_filename\<close> returned for the packaged genome, training regions and scores.
\<close>

theorem training_data_loading:
  "result_of lib env w = Inr g \<Longrightarrow>
     Ev (Call (Fn ''resource_filename'') [PyStr ''janggu'', PyStr ''resources/pseudo_genome.fa''] [])
        (Inr (REFGENOME_of g)) \<in> set (trace_of lib env w) \<and>
     Ev (Call (Fn ''resource_filename'') [PyStr ''janggu'', PyStr ''resources/roi_train.bed''] [])
        (Inr (ROI_TRAIN_FILE_of g)) \<in> set (trace_of lib env w) \<and>
     Ev (Call (Fn ''resource_filename'') [PyStr ''janggu'', PyStr ''resources/scores.bed''] [])
        (Inr (PEAK_FILE_of g)) \<in> set (trace_of lib env w) \<and>
     (\<exists>cover.
        take 3 (filter (labelled step2) (trace_of lib env w)) =
          [Ev (Call (Fn ''Bioseq.create_from_refgenome'') [PyStr ''dna'']
                 [(''refgenome'', REFGENOME_of g), (''roi'', ROI_TRAIN_FILE_of g),
                  (''binsize'', PyInt 200), (''order'', PyInt order), (''cache'', PyBool True)])
             (Inr (DNA_of g)),
           Ev (Call (Fn ''Cover.create_from_bed'') [PyStr ''peaks'']
                 [(''roi'', ROI_TRAIN_FILE_of g), (''bedfiles'', PEAK_FILE_of g),
                  (''binsize'', PyInt 200), (''resolution'', PyInt 200),
                  (''cache'', PyBool True), (''storage'', PyStr ''sparse'')])
             (Inr cover),
           Ev (Call (Fn ''ReduceDim'') [cover] []) (Inr (LABELS_of g))]) \<and>
     order = 3"
proof (intro conjI)
  assume res: "result_of lib env w = Inr g"
  then obtain s where run: "run lib env w = (Inr g, s)" and t: "trace_of lib env w = trace s"
    by (rule complete_run)
  show "Ev (Call (Fn ''resource_filename'') [PyStr ''janggu'', PyStr ''resources/pseudo_genome.fa''] [])
        (Inr (REFGENOME_of g)) \<in> set (trace_of lib env w)"
    using notebook_complete [OF run] unfolding t by (elim exE conjE) simp
  show "Ev (Call (Fn ''resource_filename'') [PyStr ''janggu'', PyStr ''resources/roi_train.bed''] [])
        (Inr (ROI_TRAIN_FILE_of g)) \<in> set (trace_of lib env w)"
    using notebook_complete [OF run] unfolding t by (elim exE conjE) simp
  show "Ev (Call (Fn ''resource_filename'') [PyStr ''janggu'', PyStr ''resources/scores.bed''] [])
        (Inr (PEAK_FILE_of g)) \<in> set (trace_of lib env w)"
    using notebook_complete [OF run] unfolding t by (elim exE conjE) simp
  show "\<exists>cover.
        take 3 (filter (labelled step2) (trace_of lib env w)) =
          [Ev (Call (Fn ''Bioseq.create_from_refgenome'') [PyStr ''dna'']
                 [(''refgenome'', REFGENOME_of g), (''roi'', ROI_TRAIN_FILE_of g),
                  (''binsize'', PyInt 200), (''order'', PyInt order), (''cache'', PyBool True)])
             (Inr (DNA_of g)),
           Ev (Call (Fn ''Cover.create_from_bed'') [PyStr ''peaks'']
                 [(''roi'', ROI_TRAIN_FILE_of g), (''bedfiles'', PEAK_FILE_of g),
                  (''binsize'', PyInt 200), (''resolution'', PyInt 200),
                  (''cache'', PyBool True), (''storage'', PyStr ''sparse'')])
             (Inr cover),
           Ev (Call (Fn ''ReduceDim'') [cover] []) (Inr (LABELS_of g))]"
    using notebook_complete [OF run] unfolding t
    by (elim exE conjE) (simp add: labelled_def step2_def order_def)
  show "order = 3" by (simp add: order_def)
qed

theorem training_data_loading_witness:
  "result_of demo_lib Map.empty 0 = Inr demo_ns \<and>
   (\<exists>cover.
      take 3 (filter (labelled step2) (trace_of demo_lib Map.empty 0)) =
        [Ev (Call (Fn ''Bioseq.create_from_refgenome'') [PyStr ''dna'']
               [(''refgenome'', PyObj 16), (''roi'', PyObj 17),
                (''binsize'', PyInt 200), (''order'', PyInt 3), (''cache'', PyBool True)])
           (Inr (PyObj 20)),
         Ev (Call (Fn ''Cover.create_from_bed'') [PyStr ''peaks'']
               [(''roi'', PyObj 17), (''bedfiles'', PyObj 19),
                (''binsize'', PyInt 200), (''resolution'', PyInt 200),
                (''cache'', PyBool True), (''storage'', PyStr ''sparse'')])
           (Inr cover),
         Ev (Call (Fn ''ReduceDim'') [cover] []) (Inr (PyObj 22))])"
  using training_data_loading [of demo_lib Map.empty 0 demo_ns] demo_result
  by (simp add: demo_ns_def order_def)

text \<open>
  C4: the test data. The test datasets are not loaded by the training calls with only
  the regions exchanged: the training calls pass \<open>cache = True\<close> and the test calls
  pass no \<open>cache\<close> argument (lines 148 and 155 against lines 159 to 169). What holds in
  a run that completes: each of the two loaders is called twice, and the second call is
  the first one with the test regions in place of the training regions and the \<open>cache\<close>
  argument left out, so genome, peak file, \<open>binsize\<close>, \<open>order\<close>, \<open>resolution\<close> and
  \<open>storage\<close> are the same; the second sequence dataset is \<^verbatim>\<open>DNA_TEST\<close>, and both covers
  are wrapped in \<^verbatim>\<open>ReduceDim\<close>, which gives \<^verbatim>\<open>LABELS\<close> and \<^verbatim>\<open>LABELS_TEST\<close>. The
  counterexample is the run against \<open>demo_lib\<close>.
\<close>

theorem test_data_loading:
  "result_of lib env w = Inr g \<Longrightarrow>
     (\<exists>c1 c2.
        calls_labelled ''Bioseq.create_from_refgenome'' (trace_of lib env w) = [c1, c2] \<and>
        same_call (without_kwarg ''cache'' (with_kwarg ''roi'' (ROI_TEST_FILE_of g) c1)) c2 \<and>
        map_of (call_kwargs c1) ''roi'' = Some (ROI_TRAIN_FILE_of g) \<and>
        map_of (call_kwargs c1) ''cache'' = Some (PyBool True) \<and>
        map_of (call_kwargs c2) ''cache'' = None) \<and>
     (\<exists>c1 c2.
        calls_labelled ''Cover.create_from_bed'' (trace_of lib env w) = [c1, c2] \<and>
        same_call (without_kwarg ''cache'' (with_kwarg ''roi'' (ROI_TEST_FILE_of g) c1)) c2 \<and>
        map_of (call_kwargs c1) ''roi'' = Some (ROI_TRAIN_FILE_of g) \<and>
        map_of (call_kwargs c1) ''cache'' = Some (PyBool True) \<and>
        map_of (call_kwargs c2) ''cache'' = None) \<and>
     map returned (filter (labelled [''Bioseq.create_from_refgenome'']) (trace_of lib env w)) =
       [DNA_of g, DNA_TEST_of g] \<and>
     (\<exists>cover cover'.
        map returned (filter (labelled [''Cover.create_from_bed'']) (trace_of lib env w)) =
          [cover, cover'] \<and>
        filter (labelled [''ReduceDim'']) (trace_of lib env w) =
          [Ev (Call (Fn ''ReduceDim'') [cover] []) (Inr (LABELS_of g)),
           Ev (Call (Fn ''ReduceDim'') [cover'] []) (Inr (LABELS_TEST_of g))]) \<and>
     Ev (Call (Fn ''resource_filename'') [PyStr ''janggu'', PyStr ''resources/roi_test.bed''] [])
        (Inr (ROI_TEST_FILE_of g)) \<in> set (trace_of lib env w)"
proof -
  assume res: "result_of lib env w = Inr g"
  then obtain s where run: "run lib env w = (Inr g, s)" and t: "trace_of lib env w = trace s"
    by (rule complete_run)
  show ?thesis
    using notebook_complete [OF run] unfolding t
    by (elim exE conjE) (simp add: calls_labelled_def labelled_def)
qed

theorem test_data_loading_witness:
  "result_of demo_lib Map.empty 0 = Inr demo_ns \<and>
   (\<exists>c1 c2.
      calls_labelled ''Bioseq.create_from_refgenome'' (trace_of demo_lib Map.empty 0) = [c1, c2] \<and>
      same_call (without_kwarg ''cache'' (with_kwarg ''roi'' (PyObj 18) c1)) c2 \<and>
      map_of (call_kwargs c1) ''roi'' = Some (PyObj 17) \<and>
      map_of (call_kwargs c1) ''cache'' = Some (PyBool True) \<and>
      map_of (call_kwargs c2) ''cache'' = None) \<and>
   map returned (filter (labelled [''Bioseq.create_from_refgenome'']) (trace_of demo_lib Map.empty 0)) =
     [PyObj 20, PyObj 23]"
  using test_data_loading [of demo_lib Map.empty 0 demo_ns] demo_result
  by (simp add: demo_ns_def)

theorem test_data_loading_counterexample:
  "\<not> (\<exists>c1 c2.
        calls_labelled ''Bioseq.create_from_refgenome'' (trace_of demo_lib Map.empty 0) = [c1, c2] \<and>
        same_call (with_kwarg ''roi'' (ROI_TEST_FILE_of demo_ns) c1) c2)"
proof -
  obtain s where run: "run demo_lib Map.empty 0 = (Inr demo_ns, s)"
    and t: "trace_of demo_lib Map.empty 0 = trace s"
    using demo_result by (rule complete_run)
  show ?thesis
    using notebook_complete [OF run] unfolding t
    by (elim exE conjE) (simp add: calls_labelled_def labelled_def demo_ns_def)
qed

end
